theory Spec2Isabelle
  imports
    Complex_Main
    "HOL-Library.Multiset"
    "HOL-Library.Product_Lexorder"
    "HOL-Library.List_Lexorder"
    "HOL-Library.Char_ord"
begin

section \<open>Entity selection (\<^verbatim>\<open>commands/_selection_helpers.py\<close>)\<close>

text \<open>
  The add-in talks to a CAD host through Python objects. A host object is modelled by a
  record of the attribute values the code reads; an attribute whose read raises (the code
  wraps every such read in \<^verbatim>\<open>try/except\<close>) or yields \<^verbatim>\<open>None\<close> is \<open>None\<close>.
  Python floats are modelled by \<open>real\<close>: the code only adds, multiplies, negates and
  compares them. Strings compare as Python's do, lexicographically by character code.
\<close>

type_synonym vec3 = "real \<times> real \<times> real"

record ident =
  entityToken :: "string option"
  tempId :: "string option"
  entityId :: "string option"

text \<open>\<^verbatim>\<open>_entity_id\<close>: the first of the three attributes that is present, as a string.\<close>

definition entity_id :: "ident \<Rightarrow> string option" where
  "entity_id e =
     (case entityToken e of Some v \<Rightarrow> Some v
      | None \<Rightarrow> (case tempId e of Some v \<Rightarrow> Some v
                 | None \<Rightarrow> entityId e))"

text \<open>Python truthiness of an optional string: \<^verbatim>\<open>if s:\<close> holds for a non-empty string.\<close>

definition truthy :: "string option \<Rightarrow> bool" where
  "truthy s = (case s of None \<Rightarrow> False | Some v \<Rightarrow> v \<noteq> [])"

text \<open>\<^verbatim>\<open>s or ""\<close>\<close>

definition or_empty :: "string option \<Rightarrow> string" where
  "or_empty s = (case s of None \<Rightarrow> [] | Some v \<Rightarrow> v)"

datatype surface_type = PlaneSurfaceType | OtherSurfaceType

record geometry =
  surfaceType :: "surface_type option"
  isPlane :: "bool option"
  geom_normal :: "vec3 option"

record face =
  face_ref :: nat
  face_ident :: ident
  face_geometry :: "geometry option"
  face_centroid :: "vec3 option"
  face_area :: "real option"
  face_bbox :: "(vec3 \<times> vec3) option"

definition is_planar :: "face \<Rightarrow> bool" where
  "is_planar f =
     (case face_geometry f of None \<Rightarrow> False
      | Some g \<Rightarrow>
          (if surfaceType g = Some PlaneSurfaceType then True
           else (case isPlane g of Some b \<Rightarrow> b | None \<Rightarrow> False)))"

datatype axis = PlusX | MinusX | PlusY | MinusY | PlusZ | MinusZ

datatype coord = CX | CY | CZ

text \<open>
  The value \<^verbatim>\<open>_parse_face_selector\<close> returns for a selector string it accepts: a dict
  with a \<^verbatim>\<open>type\<close> and, for three of the types, an \<^verbatim>\<open>axis\<close>.
\<close>

datatype face_selector =
    LargestPlanar
  | LargestArea
  | NormalClosest axis
  | MaxBBox coord
  | MinBBox coord

fun axis_vector :: "axis \<Rightarrow> vec3" where
  "axis_vector PlusX = (1, 0, 0)"
| "axis_vector MinusX = (-1, 0, 0)"
| "axis_vector PlusY = (0, 1, 0)"
| "axis_vector MinusY = (0, -1, 0)"
| "axis_vector PlusZ = (0, 0, 1)"
| "axis_vector MinusZ = (0, 0, -1)"

fun vector_dot :: "vec3 \<Rightarrow> vec3 \<Rightarrow> real" where
  "vector_dot (x, y, z) (a0, a1, a2) = x * a0 + y * a1 + z * a2"

fun normalize_vector :: "vec3 \<Rightarrow> vec3 option" where
  "normalize_vector (x, y, z) =
     (let len = sqrt (x * x + y * y + z * z)
      in if len \<le> 0 then None else Some (x / len, y / len, z / len))"

fun coord_of :: "coord \<Rightarrow> vec3 \<Rightarrow> real" where
  "coord_of CX (x, y, z) = x"
| "coord_of CY (x, y, z) = y"
| "coord_of CZ (x, y, z) = z"

text \<open>
  \<^verbatim>\<open>convert_mm(units_mgr, v)\<close> is a function handed over in the request context; with
  the units manager fixed it is a function \<open>conv\<close> on numbers. \<^verbatim>\<open>_convert_mm\<close> is the one
  the add-in installs: the host's conversion, or times ten when that raises.
\<close>

definition convert_mm_addin :: "(real \<Rightarrow> real option) \<Rightarrow> real \<Rightarrow> real" where
  "convert_mm_addin host_convert v =
     (case host_convert v of Some r \<Rightarrow> r | None \<Rightarrow> v * 10)"

definition length_factor_mm :: "(real \<Rightarrow> real) \<Rightarrow> real" where
  "length_factor_mm conv = conv 1"

fun point_tuple_mm :: "(real \<Rightarrow> real) \<Rightarrow> vec3 \<Rightarrow> vec3" where
  "point_tuple_mm conv (x, y, z) = (conv x, conv y, conv z)"

definition face_area_mm2 :: "(real \<Rightarrow> real) \<Rightarrow> face \<Rightarrow> real option" where
  "face_area_mm2 conv f =
     (case face_area f of None \<Rightarrow> None
      | Some a \<Rightarrow> Some (a * (length_factor_mm conv)\<^sup>2))"

text \<open>\<^verbatim>\<open>_bbox_mm\<close>, the part \<^verbatim>\<open>_select_face\<close> reads: the converted min and max points.\<close>

definition bbox_mm :: "(real \<Rightarrow> real) \<Rightarrow> (vec3 \<times> vec3) option \<Rightarrow> (vec3 \<times> vec3) option" where
  "bbox_mm conv bb =
     (case bb of None \<Rightarrow> None
      | Some (mn, mx) \<Rightarrow> Some (point_tuple_mm conv mn, point_tuple_mm conv mx))"

record candidate =
  cand_face :: face
  cand_score :: real
  cand_area_mm2 :: "real option"
  cand_centroid :: vec3
  cand_centroid_tuple :: vec3
  cand_face_id :: string
  cand_normal :: "vec3 option"

definition is_normal_closest :: "face_selector \<Rightarrow> bool" where
  "is_normal_closest sel = (case sel of NormalClosest a \<Rightarrow> True | _ \<Rightarrow> False)"

text \<open>
  The score part of the loop body of \<^verbatim>\<open>_select_face\<close>: \<open>None\<close> is \<^verbatim>\<open>continue\<close>,
  otherwise the score and the \<^verbatim>\<open>normal_out\<close> of the candidate.
\<close>

fun face_score ::
  "(real \<Rightarrow> real) \<Rightarrow> face_selector \<Rightarrow> face \<Rightarrow> real option \<Rightarrow> (real \<times> vec3 option) option" where
  "face_score conv LargestPlanar f area_mm2 =
     (case area_mm2 of None \<Rightarrow> None | Some a \<Rightarrow> Some (a, None))"
| "face_score conv LargestArea f area_mm2 =
     (case area_mm2 of None \<Rightarrow> None | Some a \<Rightarrow> Some (a, None))"
| "face_score conv (NormalClosest ax) f area_mm2 =
     (case face_geometry f of None \<Rightarrow> None
      | Some g \<Rightarrow>
          (case geom_normal g of None \<Rightarrow> None
           | Some n \<Rightarrow> Some (vector_dot n (axis_vector ax), normalize_vector n)))"
| "face_score conv (MaxBBox c) f area_mm2 =
     (case bbox_mm conv (face_bbox f) of None \<Rightarrow> None
      | Some (mn, mx) \<Rightarrow> Some (coord_of c mx, None))"
| "face_score conv (MinBBox c) f area_mm2 =
     (case bbox_mm conv (face_bbox f) of None \<Rightarrow> None
      | Some (mn, mx) \<Rightarrow> Some (- coord_of c mn, None))"

definition face_candidate :: "(real \<Rightarrow> real) \<Rightarrow> face_selector \<Rightarrow> face \<Rightarrow> candidate option" where
  "face_candidate conv sel f =
     (if sel = LargestPlanar \<and> \<not> is_planar f then None
      else if is_normal_closest sel \<and> \<not> is_planar f then None
      else
        (case face_centroid f of None \<Rightarrow> None
         | Some centroid \<Rightarrow>
             (let area_mm2 = face_area_mm2 conv f;
                  face_id = or_empty (entity_id (face_ident f));
                  centroid_tuple = point_tuple_mm conv centroid
              in case face_score conv sel f area_mm2 of None \<Rightarrow> None
                 | Some (score, normal_out) \<Rightarrow>
                     Some \<lparr>cand_face = f, cand_score = score, cand_area_mm2 = area_mm2,
                            cand_centroid = centroid, cand_centroid_tuple = centroid_tuple,
                            cand_face_id = face_id, cand_normal = normal_out\<rparr>)))"

text \<open>\<^verbatim>\<open>_tie_key\<close>; Python compares the tuples, and the nested tuple, lexicographically.\<close>

definition tie_key :: "candidate \<Rightarrow> real \<times> real \<times> vec3 \<times> string" where
  "tie_key item =
     (let area = (case cand_area_mm2 item of Some a \<Rightarrow> a | None \<Rightarrow> - 1)
      in (- cand_score item, - area, cand_centroid_tuple item, cand_face_id item))"

definition face_candidates :: "(real \<Rightarrow> real) \<Rightarrow> face_selector \<Rightarrow> face list \<Rightarrow> candidate list" where
  "face_candidates conv sel faces = List.map_filter (face_candidate conv sel) faces"

text \<open>
  \<^verbatim>\<open>_select_face\<close> on the faces of a body, in the host's enumeration order.
  \<^verbatim>\<open>candidates.sort(key=_tie_key)\<close> is a stable sort, as \<open>sort_key\<close> is; the result is
  the first sorted candidate and the number of candidates.
\<close>

definition select_face ::
  "(real \<Rightarrow> real) \<Rightarrow> face_selector \<Rightarrow> face list \<Rightarrow> candidate option \<times> nat" where
  "select_face conv sel faces =
     (let candidates = face_candidates conv sel faces
      in case sort_key tie_key candidates of
           [] \<Rightarrow> (None, 0)
         | c # cs \<Rightarrow> (Some c, length candidates))"


section \<open>Edges, bodies and the document\<close>

text \<open>
  An edge as \<^verbatim>\<open>_select_edge\<close> sees it: its identity, its length, and the results of
  \<^verbatim>\<open>_edge_midpoint\<close> and \<^verbatim>\<open>_edge_direction\<close>.
\<close>

record edge =
  edge_ref :: nat
  edge_ident :: ident
  edge_length :: "real option"
  edge_midpoint :: "vec3 option"
  edge_direction :: "vec3 option"

datatype edge_selector = LongestEdge | EdgeNormalClosest axis | ClosestToPoint

record edge_candidate =
  ecand_edge :: edge
  ecand_score :: real
  ecand_length_mm :: "real option"
  ecand_midpoint_tuple :: vec3
  ecand_edge_id :: string

definition edge_length_mm :: "(real \<Rightarrow> real) \<Rightarrow> edge \<Rightarrow> real option" where
  "edge_length_mm conv e =
     (case edge_length e of None \<Rightarrow> None | Some l \<Rightarrow> Some (l * length_factor_mm conv))"

fun edge_score ::
  "edge_selector \<Rightarrow> vec3 option \<Rightarrow> edge \<Rightarrow> real option \<Rightarrow> vec3 \<Rightarrow> real option" where
  "edge_score LongestEdge point_mm e length_mm mid = length_mm"
| "edge_score (EdgeNormalClosest ax) point_mm e length_mm mid =
     (case edge_direction e of None \<Rightarrow> None
      | Some dir \<Rightarrow> Some (vector_dot dir (axis_vector ax)))"
| "edge_score ClosestToPoint point_mm e length_mm mid =
     (case point_mm of None \<Rightarrow> None
      | Some (px, py, pz) \<Rightarrow>
          (case mid of (mx, my, mz) \<Rightarrow>
             (let dx = mx - px; dy = my - py; dz = mz - pz
              in Some (- (dx * dx + dy * dy + dz * dz)))))"

definition edge_cand ::
  "(real \<Rightarrow> real) \<Rightarrow> edge_selector \<Rightarrow> vec3 option \<Rightarrow> edge \<Rightarrow> edge_candidate option" where
  "edge_cand conv sel point_mm e =
     (let edge_id = or_empty (entity_id (edge_ident e));
          length_mm = edge_length_mm conv e
      in case edge_midpoint e of None \<Rightarrow> None
         | Some midpoint \<Rightarrow>
             (let midpoint_tuple = point_tuple_mm conv midpoint
              in case edge_score sel point_mm e length_mm midpoint_tuple of None \<Rightarrow> None
                 | Some score \<Rightarrow>
                     Some \<lparr>ecand_edge = e, ecand_score = score, ecand_length_mm = length_mm,
                            ecand_midpoint_tuple = midpoint_tuple, ecand_edge_id = edge_id\<rparr>))"

definition edge_tie_key :: "edge_candidate \<Rightarrow> real \<times> real \<times> vec3 \<times> string" where
  "edge_tie_key item =
     (let len = (case ecand_length_mm item of Some l \<Rightarrow> l | None \<Rightarrow> - 1)
      in (- ecand_score item, - len, ecand_midpoint_tuple item, ecand_edge_id item))"

definition select_edge ::
  "(real \<Rightarrow> real) \<Rightarrow> edge_selector \<Rightarrow> vec3 option \<Rightarrow> edge list \<Rightarrow> edge_candidate option \<times> nat" where
  "select_edge conv sel point_mm edges =
     (let candidates = List.map_filter (edge_cand conv sel point_mm) edges
      in case sort_key edge_tie_key candidates of
           [] \<Rightarrow> (None, 0)
         | c # cs \<Rightarrow> (Some c, length candidates))"

text \<open>
  A body. \<open>body_ref\<close> is the identity of the host object: a Python variable bound to a
  body stays bound to the same object while the document changes under it.
\<close>

record body =
  body_ref :: nat
  body_ident :: ident
  body_name :: string
  isSolid :: "bool option"
  isVisible :: "bool option"
  body_faces :: "face list"
  body_edges :: "edge list"
  body_vertex_count :: nat
  body_bbox :: "(vec3 \<times> vec3) option"
  body_volume :: "real option"

record profile =
  profile_ref :: nat
  profile_curve_ids :: "string list"

record sketch =
  sketch_ident :: ident
  sketch_profiles :: "profile list"

record feature =
  feature_ident :: ident
  feature_name :: "string option"

text \<open>
  The part of the design the commands read and change: the bodies of the root component
  in enumeration order, its sketches, the features of the timeline and the construction
  axes.
\<close>

record document =
  bRepBodies :: "body list"
  sketches :: "sketch list"
  features :: "feature list"
  constructionAxes :: "(vec3 \<times> vec3) list"

text \<open>\<^verbatim>\<open>_list_visible_bodies\<close>: a body is kept when both flags read as true.\<close>

definition list_visible_bodies :: "document \<Rightarrow> body list" where
  "list_visible_bodies d =
     filter (\<lambda>b. isSolid b = Some True \<and> isVisible b = Some True) (bRepBodies d)"

text \<open>
  \<^verbatim>\<open>_resolve_body\<close>. \<^verbatim>\<open>if body_name:\<close> is Python truthiness: a missing name and the
  empty string both take the second half.
\<close>

definition resolve_body :: "document \<Rightarrow> string option \<Rightarrow> body option \<times> body list" where
  "resolve_body d name =
     (let bodies = list_visible_bodies d
      in if truthy name
         then (find (\<lambda>b. body_name b = or_empty name) bodies, bodies)
         else (case bodies of [b] \<Rightarrow> (Some b, bodies) | _ \<Rightarrow> (None, bodies)))"

definition body_counts :: "body \<Rightarrow> nat \<times> nat \<times> nat" where
  "body_counts b = (length (body_faces b), length (body_edges b), body_vertex_count b)"

text \<open>\<^verbatim>\<open>_total_counts\<close>: the sums over the bodies, as (faces, edges, vertices).\<close>

fun total_counts :: "body list \<Rightarrow> nat \<times> nat \<times> nat" where
  "total_counts [] = (0, 0, 0)"
| "total_counts (b # bs) =
     (case (body_counts b, total_counts bs) of
        ((f, e, v), (tf, te, tv)) \<Rightarrow> (tf + f, te + e, tv + v))"

record measurement =
  m_body_name :: "string option"
  m_bbox_mm :: "(vec3 \<times> vec3 \<times> vec3) option"
  m_volume_mm3 :: "real option"
  m_counts :: "nat \<times> nat \<times> nat"

record measurement_after = measurement +
  source_body :: "measurement option"

definition body_bbox_mm :: "(real \<Rightarrow> real) \<Rightarrow> body \<Rightarrow> (vec3 \<times> vec3 \<times> vec3) option" where
  "body_bbox_mm conv b =
     (case bbox_mm conv (body_bbox b) of None \<Rightarrow> None
      | Some ((x0, y0, z0), (x1, y1, z1)) \<Rightarrow>
          Some ((x0, y0, z0), (x1, y1, z1), (x1 - x0, y1 - y0, z1 - z0)))"

definition volume_mm3 :: "(real \<Rightarrow> real) \<Rightarrow> body \<Rightarrow> real option" where
  "volume_mm3 conv b =
     (case body_volume b of None \<Rightarrow> None
      | Some v \<Rightarrow> Some (v * (length_factor_mm conv) ^ 3))"

definition body_measurement :: "(real \<Rightarrow> real) \<Rightarrow> body \<Rightarrow> measurement" where
  "body_measurement conv b =
     \<lparr>m_body_name = Some (body_name b), m_bbox_mm = body_bbox_mm conv b,
      m_volume_mm3 = volume_mm3 conv b, m_counts = body_counts b\<rparr>"

text \<open>
  Reading a body variable after the document has changed: the attributes are those of
  the same host object in the current document. (A body that is no longer in the document
  keeps its last reading.)
\<close>

definition refresh :: "document \<Rightarrow> body \<Rightarrow> body" where
  "refresh d b =
     (case find (\<lambda>b'. body_ref b' = body_ref b) (bRepBodies d) of
        Some b' \<Rightarrow> b' | None \<Rightarrow> b)"

datatype body_key = IdKey string | NameKey string

text \<open>\<^verbatim>\<open>_body_key\<close> of \<^verbatim>\<open>extrude_feature.py\<close>\<close>

definition body_key :: "body \<Rightarrow> body_key" where
  "body_key b =
     (let entity = entity_id (body_ident b)
      in if truthy entity then IdKey (or_empty entity) else NameKey (body_name b))"


section \<open>The host, requests and responses\<close>

datatype op_kind =
    FaceExtrude
  | ProfileExtrude
  | Hole
  | Fillet
  | Shell
  | PatternRectangular
  | PatternCircular
  | Mirror
  | Revolve

datatype guardrail = ApplyMs | FaceCountDelta | EdgeCountDelta | BodyCountDelta

text \<open>
  The \<^verbatim>\<open>error\<close> strings of the responses, one constructor for each message; the
  arguments are the values the message interpolates.
\<close>

datatype error =
    NoActiveDesign
  | UnsupportedUnits string
  | UnsupportedFaceSelector string
  | UnsupportedOperation string
  | UnsupportedDirection string
  | DistanceNotNumber
  | DistanceNotPositive
  | DistanceExceedsMax
  | BodyNotFound string "string list"
  | NoVisibleSolidBody
  | MultipleVisibleBodies
  | NoPlanarFacesMatched
  | ApplyFailed op_kind string
  | GuardrailExceeded guardrail
  | MultipleBodiesCreated
  | NoNewBodyCreated
  | FaceRefRequired
  | CenterNotObject
  | CenterOrDiameterNotNumeric
  | DiameterNotPositive
  | DepthNotNumeric
  | DepthNotPositive
  | DepthExceedsMax
  | FaceIdNotFound string
  | NoFacesMatched
  | ProfileSketchIdRequired
  | AngleNotNumeric
  | ProfileSketchNotFound string
  | ProfileNotResolved
  | EdgeIdNotFound string
  | UnsupportedAxisSelector string
  | NoEdgesMatchedAxisSelector
  | AxisLineNotObject
  | AxisLinePointsMissing
  | AxisLinePointsNotNumeric
  | AxisCreationFailed string
  | AxisRequired

text \<open>
  The specification groups the messages into classes; the code has only the messages.
  \<open>class_of\<close> records the class each message of the commands below belongs to.
\<close>

datatype error_class =
    InvalidInput
  | InvalidSelector
  | NotFound
  | ApplyFailedClass
  | GuardrailViolation
  | ResultAmbiguous
  | NoDesign

fun class_of :: "error \<Rightarrow> error_class" where
  "class_of NoActiveDesign = NoDesign"
| "class_of (UnsupportedFaceSelector s) = InvalidSelector"
| "class_of (UnsupportedAxisSelector s) = InvalidSelector"
| "class_of (BodyNotFound n cs) = NotFound"
| "class_of NoVisibleSolidBody = NotFound"
| "class_of MultipleVisibleBodies = NotFound"
| "class_of NoPlanarFacesMatched = NotFound"
| "class_of (FaceIdNotFound s) = NotFound"
| "class_of NoFacesMatched = NotFound"
| "class_of (ProfileSketchNotFound s) = NotFound"
| "class_of ProfileNotResolved = NotFound"
| "class_of (EdgeIdNotFound s) = NotFound"
| "class_of NoEdgesMatchedAxisSelector = NotFound"
| "class_of (ApplyFailed k s) = ApplyFailedClass"
| "class_of (AxisCreationFailed s) = ApplyFailedClass"
| "class_of (GuardrailExceeded g) = GuardrailViolation"
| "class_of MultipleBodiesCreated = ResultAmbiguous"
| "class_of NoNewBodyCreated = ResultAmbiguous"
| "class_of e = InvalidInput"

text \<open>
  What the host does is not in the source. It is a parameter: each operation takes the
  document and returns its outcome and the document it leaves. \<open>Inl\<close> and \<open>False\<close> are
  a raised exception (\<open>Inl\<close> carries its text).
  \<^item> \<open>host_add\<close>: building the feature input and \<^verbatim>\<open>add\<close> on the feature collection
    of the given kind (for a hole this includes the sketch and its circle);
  \<^item> \<open>host_computeAll\<close>: \<^verbatim>\<open>design.computeAll()\<close>;
  \<^item> \<open>host_deleteMe\<close>: \<^verbatim>\<open>feature.deleteMe()\<close>;
  \<^item> \<open>host_addAxis\<close>: \<^verbatim>\<open>constructionAxes.add\<close> of an axis through two points;
  \<^item> \<open>host_elapsed_ms\<close>: \<^verbatim>\<open>(time.time() - start_time) * 1000.0\<close> where \<^verbatim>\<open>timing_ms\<close>
    is assigned, and \<open>host_elapsed_check_ms\<close> the same expression read again later.
\<close>

record 'p host =
  host_add :: "op_kind \<Rightarrow> 'p \<Rightarrow> document \<Rightarrow> (string + feature) \<times> document"
  host_computeAll :: "document \<Rightarrow> bool \<times> document"
  host_deleteMe :: "feature \<Rightarrow> document \<Rightarrow> bool \<times> document"
  host_addAxis :: "vec3 \<Rightarrow> vec3 \<Rightarrow> document \<Rightarrow> (string + nat) \<times> document"
  host_elapsed_ms :: real
  host_elapsed_check_ms :: real

datatype host_call =
    CallAdd op_kind
  | CallComputeAll
  | CallDeleteMe feature
  | CallAddAxis vec3 vec3

text \<open>The state a command runs in: the document and the mutating host calls made so far.\<close>

record world =
  doc :: document
  calls :: "host_call list"

definition do_add ::
  "'p host \<Rightarrow> op_kind \<Rightarrow> 'p \<Rightarrow> world \<Rightarrow> (string + feature) \<times> world" where
  "do_add h kind p w =
     (case host_add h kind p (doc w) of
        (r, d) \<Rightarrow> (r, \<lparr>doc = d, calls = calls w @ [CallAdd kind]\<rparr>))"

definition do_compute :: "'p host \<Rightarrow> world \<Rightarrow> bool \<times> world" where
  "do_compute h w =
     (case host_computeAll h (doc w) of
        (r, d) \<Rightarrow> (r, \<lparr>doc = d, calls = calls w @ [CallComputeAll]\<rparr>))"

definition do_delete :: "'p host \<Rightarrow> feature \<Rightarrow> world \<Rightarrow> bool \<times> world" where
  "do_delete h f w =
     (case host_deleteMe h f (doc w) of
        (r, d) \<Rightarrow> (r, \<lparr>doc = d, calls = calls w @ [CallDeleteMe f]\<rparr>))"

definition do_add_axis ::
  "'p host \<Rightarrow> vec3 \<Rightarrow> vec3 \<Rightarrow> world \<Rightarrow> (string + nat) \<times> world" where
  "do_add_axis h p1 p2 w =
     (case host_addAxis h p1 p2 (doc w) of
        (r, d) \<Rightarrow> (r, \<lparr>doc = d, calls = calls w @ [CallAddAxis p1 p2]\<rparr>))"

text \<open>
  The request context: whether \<^verbatim>\<open>design\<close> and \<^verbatim>\<open>root_comp\<close> are set, the
  conversion of the units manager from millimetres to internal units (\<open>None\<close> when there
  is no units manager; the function returns \<open>None\<close> when it raises), and \<^verbatim>\<open>convert_mm\<close>.
  The document of \<^verbatim>\<open>root_comp\<close> is the one in the world.
\<close>

record req_context =
  has_design :: bool
  has_root_comp :: bool
  units_to_internal :: "(real \<Rightarrow> real option) option"
  convert_mm :: "real \<Rightarrow> real"

record apply_block =
  ap_feature_id :: "string option"
  ap_feature_name :: "string option"
  ap_compute_ran :: bool
  ap_timing_ms :: real

record verify_block =
  v_tolerance_mm :: real
  v_tolerance_pct :: real
  v_required_pass :: bool
  v_warnings :: "string list"
  v_metrics_attempted :: "string list"

text \<open>
  The \<^verbatim>\<open>data\<close> object of a response, with the plan type of the command as parameter.
  A key that is missing and a key that is \<^verbatim>\<open>None\<close> are both \<open>None\<close>.
\<close>

record 'p data =
  d_is_preview :: "bool option"
  d_plan :: 'p
  d_apply :: "apply_block option"
  d_measure_before :: "measurement option"
  d_measure_after :: "measurement_after option"
  d_verify :: "verify_block option"
  d_trace_faces :: "nat option"

record 'p response =
  resp_ok :: bool
  resp_error :: "error option"
  resp_data :: "'p data option"
  resp_candidates :: "string list option"

definition fail :: "error \<Rightarrow> 'p response" where
  "fail e = \<lparr>resp_ok = False, resp_error = Some e, resp_data = None, resp_candidates = None\<rparr>"

definition fail_candidates :: "error \<Rightarrow> string list \<Rightarrow> 'p response" where
  "fail_candidates e cs =
     \<lparr>resp_ok = False, resp_error = Some e, resp_data = None, resp_candidates = Some cs\<rparr>"

text \<open>\<^verbatim>\<open>{"preview": {"plan": plan}}\<close>\<close>

definition plan_only :: "'p \<Rightarrow> 'p data" where
  "plan_only p =
     \<lparr>d_is_preview = None, d_plan = p, d_apply = None, d_measure_before = None,
      d_measure_after = None, d_verify = None, d_trace_faces = None\<rparr>"

definition fail_plan :: "error \<Rightarrow> 'p \<Rightarrow> 'p response" where
  "fail_plan e p =
     \<lparr>resp_ok = False, resp_error = Some e, resp_data = Some (plan_only p),
      resp_candidates = None\<rparr>"

definition succeed :: "'p data \<Rightarrow> 'p response" where
  "succeed d = \<lparr>resp_ok = True, resp_error = None, resp_data = Some d, resp_candidates = None\<rparr>"

text \<open>
  The block every command runs when \<^verbatim>\<open>_resolve_body\<close> returned no body: the names of
  the visible bodies, sorted, go into the response.
\<close>

definition body_failure :: "string option \<Rightarrow> body list \<Rightarrow> 'p response" where
  "body_failure name bodies =
     (let candidates = sort (map body_name bodies)
      in if truthy name then fail_candidates (BodyNotFound (or_empty name) candidates) candidates
         else if candidates = [] then fail_candidates NoVisibleSolidBody []
         else fail_candidates MultipleVisibleBodies candidates)"

section \<open>Guardrails and rollback\<close>

record thresholds =
  MAX_APPLY_MS :: real
  MAX_FACE_DELTA :: int
  MAX_EDGE_DELTA :: int
  MAX_BODY_DELTA :: int

text \<open>The four module constants of each command file.\<close>

fun thresholds_of :: "op_kind \<Rightarrow> thresholds" where
  "thresholds_of FaceExtrude =
     \<lparr>MAX_APPLY_MS = 1500, MAX_FACE_DELTA = 150, MAX_EDGE_DELTA = 300, MAX_BODY_DELTA = 1\<rparr>"
| "thresholds_of ProfileExtrude =
     \<lparr>MAX_APPLY_MS = 5000, MAX_FACE_DELTA = 300, MAX_EDGE_DELTA = 600, MAX_BODY_DELTA = 1\<rparr>"
| "thresholds_of Hole =
     \<lparr>MAX_APPLY_MS = 5000, MAX_FACE_DELTA = 200, MAX_EDGE_DELTA = 400, MAX_BODY_DELTA = 1\<rparr>"
| "thresholds_of Fillet =
     \<lparr>MAX_APPLY_MS = 5000, MAX_FACE_DELTA = 300, MAX_EDGE_DELTA = 600, MAX_BODY_DELTA = 1\<rparr>"
| "thresholds_of Shell =
     \<lparr>MAX_APPLY_MS = 5000, MAX_FACE_DELTA = 500, MAX_EDGE_DELTA = 1000, MAX_BODY_DELTA = 1\<rparr>"
| "thresholds_of PatternRectangular =
     \<lparr>MAX_APPLY_MS = 5000, MAX_FACE_DELTA = 500, MAX_EDGE_DELTA = 1000, MAX_BODY_DELTA = 20\<rparr>"
| "thresholds_of PatternCircular =
     \<lparr>MAX_APPLY_MS = 5000, MAX_FACE_DELTA = 500, MAX_EDGE_DELTA = 1000, MAX_BODY_DELTA = 20\<rparr>"
| "thresholds_of Mirror =
     \<lparr>MAX_APPLY_MS = 1500, MAX_FACE_DELTA = 400, MAX_EDGE_DELTA = 800, MAX_BODY_DELTA = 10\<rparr>"
| "thresholds_of Revolve =
     \<lparr>MAX_APPLY_MS = 1500, MAX_FACE_DELTA = 400, MAX_EDGE_DELTA = 800, MAX_BODY_DELTA = 5\<rparr>"

text \<open>
  The differences of the counts after and before: faces, edges, bodies. Python's
  integers are unbounded and a difference may be negative.
\<close>

definition count_deltas :: "body list \<Rightarrow> body list \<Rightarrow> int \<times> int \<times> int" where
  "count_deltas before_visible after_visible =
     (case (total_counts before_visible, total_counts after_visible) of
        ((bf, be, bv), (af, ae, av)) \<Rightarrow>
          (int af - int bf, int ae - int be,
           int (length after_visible) - int (length before_visible)))"

text \<open>The \<^verbatim>\<open>if/elif\<close> chain that assigns \<^verbatim>\<open>guardrail_error\<close>.\<close>

definition guardrail_check :: "thresholds \<Rightarrow> real \<Rightarrow> int \<times> int \<times> int \<Rightarrow> guardrail option" where
  "guardrail_check t elapsed deltas =
     (case deltas of (face_delta, edge_delta, body_delta) \<Rightarrow>
        if elapsed > MAX_APPLY_MS t then Some ApplyMs
        else if face_delta > MAX_FACE_DELTA t then Some FaceCountDelta
        else if edge_delta > MAX_EDGE_DELTA t then Some EdgeCountDelta
        else if body_delta > MAX_BODY_DELTA t then Some BodyCountDelta
        else None)"

text \<open>
  The rollback block:
  \<^verbatim>\<open>try: feature.deleteMe(); design.computeAll()  except Exception: pass\<close>.
  The recompute runs only when the delete did not raise; in two commands it is also
  under \<^verbatim>\<open>if compute:\<close>.
\<close>

definition rollback :: "'p host \<Rightarrow> bool \<Rightarrow> feature \<Rightarrow> world \<Rightarrow> world" where
  "rollback h recompute f w =
     (case do_delete h f w of
        (deleted, w1) \<Rightarrow> if deleted \<and> recompute then snd (do_compute h w1) else w1)"


section \<open>Apply, recompute, guardrail check, rollback\<close>

text \<open>
  The commands differ in four places of an otherwise identical block.
  \<^item> \<^verbatim>\<open>design.computeAll()\<close> after the apply is under \<^verbatim>\<open>if compute:\<close> in
    \<^verbatim>\<open>extrude_feature.py\<close>, \<^verbatim>\<open>extrude_profile.py\<close> and \<^verbatim>\<open>fillet_feature.py\<close>, and
    unconditional in the others.
  \<^item> When it raises, \<^verbatim>\<open>extrude_feature.py\<close> raises \<^verbatim>\<open>RuntimeError("Design compute failed")\<close>
    into the enclosing \<^verbatim>\<open>except\<close>; the others \<^verbatim>\<open>pass\<close>.
  \<^item> The recompute of the rollback is under \<^verbatim>\<open>if compute:\<close> in \<^verbatim>\<open>extrude_feature.py\<close>
    and \<^verbatim>\<open>extrude_profile.py\<close> only.
  \<^item> \<^verbatim>\<open>hole_feature.py\<close> compares a fresh reading of the clock with \<^verbatim>\<open>MAX_APPLY_MS\<close>,
    the others compare \<^verbatim>\<open>timing_ms\<close>.
\<close>

fun compute_requested :: "op_kind \<Rightarrow> bool \<Rightarrow> bool" where
  "compute_requested FaceExtrude compute = compute"
| "compute_requested ProfileExtrude compute = compute"
| "compute_requested Fillet compute = compute"
| "compute_requested k compute = True"

definition compute_failure_fatal :: "op_kind \<Rightarrow> bool" where
  "compute_failure_fatal kind = (kind = FaceExtrude)"

fun rollback_recompute :: "op_kind \<Rightarrow> bool \<Rightarrow> bool" where
  "rollback_recompute FaceExtrude compute = compute"
| "rollback_recompute ProfileExtrude compute = compute"
| "rollback_recompute k compute = True"

definition check_elapsed :: "op_kind \<Rightarrow> 'p host \<Rightarrow> real" where
  "check_elapsed kind h = (if kind = Hole then host_elapsed_check_ms h else host_elapsed_ms h)"

text \<open>
  The \<^verbatim>\<open>try\<close> block around the apply, with its \<^verbatim>\<open>except\<close>: either the failure response's
  error, or the created feature and \<^verbatim>\<open>compute_ran\<close>. In the \<^verbatim>\<open>except\<close> the feature is
  deleted when it exists, which is the case only after the fatal recompute failure.
\<close>

definition try_apply ::
  "op_kind \<Rightarrow> 'p host \<Rightarrow> bool \<Rightarrow> 'p \<Rightarrow> world \<Rightarrow> (error + feature \<times> bool) \<times> world" where
  "try_apply kind h compute p w =
     (case do_add h kind p w of
        (Inl exc, w1) \<Rightarrow> (Inl (ApplyFailed kind exc), w1)
      | (Inr feat, w1) \<Rightarrow>
          if compute_requested kind compute
          then (case do_compute h w1 of
                  (computed, w2) \<Rightarrow>
                    if \<not> computed \<and> compute_failure_fatal kind
                    then (Inl (ApplyFailed kind ''Design compute failed''),
                          snd (do_delete h feat w2))
                    else (Inr (feat, computed), w2))
          else (Inr (feat, False), w1))"

definition applied :: "'p \<Rightarrow> feature \<Rightarrow> bool \<Rightarrow> real \<Rightarrow> 'p data" where
  "applied p feat compute_ran timing_ms =
     \<lparr>d_is_preview = Some False, d_plan = p,
      d_apply = Some \<lparr>ap_feature_id = entity_id (feature_ident feat),
                      ap_feature_name = feature_name feat,
                      ap_compute_ran = compute_ran, ap_timing_ms = timing_ms\<rparr>,
      d_measure_before = None, d_measure_after = None, d_verify = None,
      d_trace_faces = None\<rparr>"

definition previewed :: "'p \<Rightarrow> 'p data" where
  "previewed p =
     \<lparr>d_is_preview = Some True, d_plan = p, d_apply = None, d_measure_before = None,
      d_measure_after = None, d_verify = None, d_trace_faces = None\<rparr>"

text \<open>
  What follows \<^verbatim>\<open>if preview: return ...\<close> in \<^verbatim>\<open>extrude_profile.py\<close>, \<^verbatim>\<open>hole_feature.py\<close>,
  \<^verbatim>\<open>fillet_feature.py\<close>, \<^verbatim>\<open>shell_feature.py\<close>, \<^verbatim>\<open>pattern_feature.py\<close> (both branches),
  \<^verbatim>\<open>mirror_feature.py\<close> and \<^verbatim>\<open>revolve_feature.py\<close>.
\<close>

definition mutate :: "op_kind \<Rightarrow> 'p host \<Rightarrow> bool \<Rightarrow> 'p \<Rightarrow> world \<Rightarrow> 'p response \<times> world" where
  "mutate kind h compute p w =
     (let before_visible = list_visible_bodies (doc w)
      in case try_apply kind h compute p w of
           (Inl e, w1) \<Rightarrow> (fail_plan e p, w1)
         | (Inr (feat, compute_ran), w2) \<Rightarrow>
             (let timing_ms = host_elapsed_ms h;
                  after_visible = list_visible_bodies (doc w2)
              in case guardrail_check (thresholds_of kind) (check_elapsed kind h)
                        (count_deltas before_visible after_visible) of
                   Some g \<Rightarrow>
                     (fail_plan (GuardrailExceeded g) p,
                      rollback h (rollback_recompute kind compute) feat w2)
                 | None \<Rightarrow> (succeed (applied p feat compute_ran timing_ms), w2)))"

section \<open>\<^verbatim>\<open>extrude_feature.py\<close>\<close>

text \<open>
  The request after \<^verbatim>\<open>request.get\<close> with its defaults. \<open>xr_selector\<close> is what
  \<^verbatim>\<open>_parse_face_selector\<close> returns for \<open>xr_face_selector\<close>, and \<open>xr_distance_mm\<close> what
  \<^verbatim>\<open>float(distance_mm)\<close> returns (\<open>None\<close> when it raises).
\<close>

record extrude_request =
  xr_body_name :: "string option"
  xr_face_selector :: string
  xr_selector :: "face_selector option"
  xr_operation :: string
  xr_distance_mm :: "real option"
  xr_direction :: string
  xr_preview :: bool
  xr_compute :: bool
  xr_units :: string
  xr_tolerance_mm :: real
  xr_tolerance_pct :: real

record extrude_plan =
  xp_body_name :: string
  xp_face_id :: string
  xp_face_selector :: string
  xp_centroid_mm :: vec3
  xp_normal :: "vec3 option"
  xp_area_mm2 :: "real option"
  xp_operation :: string
  xp_distance_mm :: real
  xp_direction :: string

definition MAX_EXTRUDE_MM :: real where
  "MAX_EXTRUDE_MM = 50"

definition operations :: "string list" where
  "operations = [''new_body'', ''join'', ''cut'', ''intersect'']"

definition with_source :: "measurement \<Rightarrow> measurement option \<Rightarrow> measurement_after" where
  "with_source m s =
     \<lparr>m_body_name = m_body_name m, m_bbox_mm = m_bbox_mm m, m_volume_mm3 = m_volume_mm3 m,
      m_counts = m_counts m, source_body = s\<rparr>"

definition has_bbox :: "'a measurement_scheme \<Rightarrow> bool" where
  "has_bbox m = (m_bbox_mm m \<noteq> None)"

definition has_volume :: "'a measurement_scheme \<Rightarrow> bool" where
  "has_volume m = (m_volume_mm3 m \<noteq> None)"

text \<open>The verification block: \<^verbatim>\<open>required_pass\<close> and \<^verbatim>\<open>warnings\<close>.\<close>

definition extrude_verify ::
  "string \<Rightarrow> measurement \<Rightarrow> measurement_after \<Rightarrow> bool \<Rightarrow> bool \<times> string list" where
  "extrude_verify operation_name before after has_new =
     (let bbox_missing = (\<not> has_bbox before \<or> \<not> has_bbox after);
          volume_missing = (\<not> has_volume before \<or> \<not> has_volume after);
          require_volume = (operation_name \<in> set [''join'', ''cut'', ''intersect'']);
          source_missing = (has_new \<and> source_body after = None);
          new_bbox_missing = (has_new \<and> \<not> has_bbox after);
          new_volume_missing = (has_new \<and> require_volume \<and> \<not> has_volume after)
      in (\<not> bbox_missing \<and> \<not> (require_volume \<and> volume_missing) \<and> \<not> source_missing
            \<and> \<not> new_bbox_missing \<and> \<not> new_volume_missing,
          (if bbox_missing then [''bbox measurement missing''] else [])
          @ (if require_volume \<and> volume_missing then [''volume measurement missing'']
             else if volume_missing then [''volume measurement missing (advisory)'']
             else [])
          @ (if source_missing
             then [''source_body measurement missing for new_body operation''] else [])
          @ (if new_bbox_missing then [''new_body bbox missing''] else [])
          @ (if new_volume_missing then [''new_body volume missing''] else [])
          @ [''face_span not computed (no selector provided)'']))"

text \<open>
  The bodies of \<^verbatim>\<open>after_visible\<close> whose key is not among the keys of
  \<^verbatim>\<open>before_visible\<close>.
\<close>

definition new_candidates :: "body list \<Rightarrow> body list \<Rightarrow> body list" where
  "new_candidates before_visible after_visible =
     filter (\<lambda>b. body_key b \<notin> set (map body_key before_visible)) after_visible"

text \<open>
  The end of \<^verbatim>\<open>handle\<close>: the measurements, the verification block and the response,
  given the new body when there is one.
\<close>

definition extrude_success ::
  "req_context \<Rightarrow> extrude_request \<Rightarrow> body \<Rightarrow> extrude_plan \<Rightarrow> nat \<Rightarrow> measurement \<Rightarrow>
   feature \<Rightarrow> bool \<Rightarrow> real \<Rightarrow> body option \<Rightarrow> document \<Rightarrow> extrude_plan response" where
  "extrude_success ctx rq body p candidate_count measure_before feat compute_ran timing_ms
       new_body d =
     (let conv = convert_mm ctx;
          source = body_measurement conv (refresh d body);
          measure_after =
            (case new_body of
               None \<Rightarrow> with_source source None
             | Some nb \<Rightarrow> with_source (body_measurement conv nb) (Some source));
          verdict = extrude_verify (xr_operation rq) measure_before measure_after
                      (new_body \<noteq> None)
      in succeed
           \<lparr>d_is_preview = Some False, d_plan = p,
            d_apply = Some \<lparr>ap_feature_id = entity_id (feature_ident feat),
                            ap_feature_name = feature_name feat,
                            ap_compute_ran = compute_ran, ap_timing_ms = timing_ms\<rparr>,
            d_measure_before = Some measure_before,
            d_measure_after = Some measure_after,
            d_verify = Some \<lparr>v_tolerance_mm = xr_tolerance_mm rq,
                             v_tolerance_pct = xr_tolerance_pct rq,
                             v_required_pass = fst verdict, v_warnings = snd verdict,
                             v_metrics_attempted = [''bbox'', ''volume'']\<rparr>,
            d_trace_faces = Some candidate_count\<rparr>)"

text \<open>
  The code after the guardrail check has passed: for a \<^verbatim>\<open>new_body\<close> operation the
  search for the one new body, with a rollback when there is none or more than one.
\<close>

definition extrude_finish ::
  "extrude_plan host \<Rightarrow> req_context \<Rightarrow> extrude_request \<Rightarrow> body \<Rightarrow> extrude_plan \<Rightarrow> nat \<Rightarrow>
   body list \<Rightarrow> measurement \<Rightarrow> feature \<Rightarrow> bool \<Rightarrow> real \<Rightarrow> world \<Rightarrow>
   extrude_plan response \<times> world" where
  "extrude_finish h ctx rq body p candidate_count before_visible measure_before feat
       compute_ran timing_ms w =
     (let after_visible = list_visible_bodies (doc w)
      in if xr_operation rq = ''new_body''
         then (case new_candidates before_visible after_visible of
                 [nb] \<Rightarrow>
                   (extrude_success ctx rq body p candidate_count measure_before feat
                      compute_ran timing_ms (Some nb) (doc w), w)
               | [] \<Rightarrow> (fail_plan NoNewBodyCreated p, rollback h (xr_compute rq) feat w)
               | _ \<Rightarrow> (fail_plan MultipleBodiesCreated p, rollback h (xr_compute rq) feat w))
         else (extrude_success ctx rq body p candidate_count measure_before feat
                 compute_ran timing_ms None (doc w), w))"

text \<open>What follows \<^verbatim>\<open>if preview: return ...\<close> in \<^verbatim>\<open>extrude_feature.py\<close>.\<close>

definition extrude_mutate ::
  "extrude_plan host \<Rightarrow> req_context \<Rightarrow> extrude_request \<Rightarrow> body \<Rightarrow> extrude_plan \<Rightarrow> nat \<Rightarrow>
   world \<Rightarrow> extrude_plan response \<times> world" where
  "extrude_mutate h ctx rq body p candidate_count w =
     (let before_visible = list_visible_bodies (doc w);
          measure_before = body_measurement (convert_mm ctx) body
      in case try_apply FaceExtrude h (xr_compute rq) p w of
           (Inl e, w1) \<Rightarrow> (fail_plan e p, w1)
         | (Inr (feat, compute_ran), w2) \<Rightarrow>
             (let timing_ms = host_elapsed_ms h;
                  after_visible = list_visible_bodies (doc w2)
              in case guardrail_check (thresholds_of FaceExtrude) timing_ms
                        (count_deltas before_visible after_visible) of
                   Some g \<Rightarrow>
                     (fail_plan (GuardrailExceeded g) p, rollback h (xr_compute rq) feat w2)
                 | None \<Rightarrow>
                     extrude_finish h ctx rq body p candidate_count before_visible
                       measure_before feat compute_ran timing_ms w2))"

text \<open>
  The checks of \<^verbatim>\<open>handle\<close> that read the request only, in the order of the source:
  the first failing one gives the error; when all pass, the parsed selector and the
  distance go on.
\<close>

definition extrude_validate ::
  "req_context \<Rightarrow> extrude_request \<Rightarrow> error + face_selector \<times> real" where
  "extrude_validate ctx rq =
     (if \<not> has_design ctx \<or> \<not> has_root_comp ctx then Inl NoActiveDesign
      else if xr_units rq \<noteq> ''mm'' then Inl (UnsupportedUnits (xr_units rq))
      else (case xr_selector rq of
              None \<Rightarrow> Inl (UnsupportedFaceSelector (xr_face_selector rq))
            | Some selector \<Rightarrow>
                if xr_operation rq \<notin> set operations
                then Inl (UnsupportedOperation (xr_operation rq))
                else if xr_direction rq \<notin> set [''normal'', ''opposite'']
                then Inl (UnsupportedDirection (xr_direction rq))
                else (case xr_distance_mm rq of
                        None \<Rightarrow> Inl DistanceNotNumber
                      | Some distance_mm \<Rightarrow>
                          if distance_mm \<le> 0 then Inl DistanceNotPositive
                          else if distance_mm > MAX_EXTRUDE_MM then Inl DistanceExceedsMax
                          else Inr (selector, distance_mm))))"

definition face_normal :: "face \<Rightarrow> vec3 option" where
  "face_normal f =
     (case face_geometry f of None \<Rightarrow> None
      | Some g \<Rightarrow> (case geom_normal g of None \<Rightarrow> None | Some n \<Rightarrow> normalize_vector n))"

definition extrude_make_plan :: "extrude_request \<Rightarrow> body \<Rightarrow> candidate \<Rightarrow> real \<Rightarrow> extrude_plan" where
  "extrude_make_plan rq body selected distance_mm =
     \<lparr>xp_body_name = body_name body,
      xp_face_id = cand_face_id selected,
      xp_face_selector = xr_face_selector rq,
      xp_centroid_mm = cand_centroid_tuple selected,
      xp_normal = (case cand_normal selected of Some n \<Rightarrow> Some n
                   | None \<Rightarrow> face_normal (cand_face selected)),
      xp_area_mm2 = cand_area_mm2 selected,
      xp_operation = xr_operation rq,
      xp_distance_mm = distance_mm,
      xp_direction = xr_direction rq\<rparr>"

definition extrude_handle ::
  "extrude_plan host \<Rightarrow> req_context \<Rightarrow> extrude_request \<Rightarrow> world \<Rightarrow>
   extrude_plan response \<times> world" where
  "extrude_handle h ctx rq w =
     (case extrude_validate ctx rq of
        Inl e \<Rightarrow> (fail e, w)
      | Inr (selector, distance_mm) \<Rightarrow>
          (case resolve_body (doc w) (xr_body_name rq) of
             (None, bodies) \<Rightarrow> (body_failure (xr_body_name rq) bodies, w)
           | (Some body, bodies) \<Rightarrow>
               (case select_face (convert_mm ctx) selector (body_faces body) of
                  (None, n) \<Rightarrow> (fail NoPlanarFacesMatched, w)
                | (Some selected, candidate_count) \<Rightarrow>
                    (let p = extrude_make_plan rq body selected distance_mm
                     in if xr_preview rq
                        then (succeed
                                \<lparr>d_is_preview = Some True, d_plan = p, d_apply = None,
                                 d_measure_before =
                                   Some (body_measurement (convert_mm ctx) body),
                                 d_measure_after = None, d_verify = None,
                                 d_trace_faces = Some candidate_count\<rparr>, w)
                        else extrude_mutate h ctx rq body p candidate_count w))))"

text \<open>
  The request passes every check of \<^verbatim>\<open>handle\<close> that comes before the checks of the
  distance, and \<open>sel\<close> is its parsed selector.
\<close>

definition checks_before_distance ::
  "req_context \<Rightarrow> extrude_request \<Rightarrow> face_selector \<Rightarrow> bool" where
  "checks_before_distance ctx rq sel =
     (has_design ctx \<and> has_root_comp ctx \<and> xr_units rq = ''mm''
      \<and> xr_selector rq = Some sel \<and> xr_operation rq \<in> set operations
      \<and> xr_direction rq \<in> set [''normal'', ''opposite''])"

section \<open>\<^verbatim>\<open>hole_feature.py\<close>\<close>

text \<open>
  \<open>hr_center_mm\<close> is \<open>None\<close> when \<^verbatim>\<open>center_mm\<close> is not a dict, \<open>Some None\<close> when a
  coordinate does not convert with \<^verbatim>\<open>float\<close>, else the three coordinates (a missing one
  is 0). \<open>hr_selector\<close> is what \<^verbatim>\<open>_parse_face_selector\<close> returns for the selector string.
\<close>

record hole_request =
  hr_body_name :: "string option"
  hr_face_selector :: "string option"
  hr_selector :: "face_selector option"
  hr_face_id :: "string option"
  hr_center_mm :: "vec3 option option"
  hr_diameter_mm :: "real option"
  hr_depth_mm :: "real option"
  hr_through_all :: bool
  hr_preview :: bool

record hole_plan =
  hp_body_name :: "string option"
  hp_face_id :: "string option"
  hp_face_selector :: "string option"
  hp_center_mm :: vec3
  hp_diameter_mm :: real
  hp_depth_mm :: "real option"
  hp_through_all :: bool

definition MAX_DISTANCE_MM_hole :: real where
  "MAX_DISTANCE_MM_hole = 50"

text \<open>\<^verbatim>\<open>_find_face_by_id\<close>: the first face, over the visible bodies, with the given id.\<close>

definition find_face_by_id :: "document \<Rightarrow> string \<Rightarrow> (face \<times> body) option" where
  "find_face_by_id d face_id =
     find (\<lambda>(f, b). entity_id (face_ident f) = Some face_id)
       (concat (map (\<lambda>b. map (\<lambda>f. (f, b)) (body_faces b)) (list_visible_bodies d)))"

text \<open>The numeric checks: the centre, the diameter and, unless through all, the depth.\<close>

definition hole_validate :: "req_context \<Rightarrow> hole_request \<Rightarrow> error + vec3 \<times> real \<times> real option" where
  "hole_validate ctx rq =
     (if \<not> has_design ctx \<or> \<not> has_root_comp ctx then Inl NoActiveDesign
      else if \<not> truthy (hr_face_id rq) \<and> \<not> truthy (hr_face_selector rq) then Inl FaceRefRequired
      else (case hr_center_mm rq of
              None \<Rightarrow> Inl CenterNotObject
            | Some None \<Rightarrow> Inl CenterOrDiameterNotNumeric
            | Some (Some center) \<Rightarrow>
                (case hr_diameter_mm rq of
                   None \<Rightarrow> Inl CenterOrDiameterNotNumeric
                 | Some diameter_mm \<Rightarrow>
                     if diameter_mm \<le> 0 then Inl DiameterNotPositive
                     else if hr_through_all rq then Inr (center, diameter_mm, None)
                     else (case hr_depth_mm rq of
                             None \<Rightarrow> Inl DepthNotNumeric
                           | Some depth_mm \<Rightarrow>
                               if depth_mm \<le> 0 then Inl DepthNotPositive
                               else if depth_mm > MAX_DISTANCE_MM_hole then Inl DepthExceedsMax
                               else Inr (center, diameter_mm, Some depth_mm)))))"

text \<open>The face of the hole and its body, by id or by selector.\<close>

definition hole_target ::
  "req_context \<Rightarrow> hole_request \<Rightarrow> document \<Rightarrow> hole_plan response + face \<times> body" where
  "hole_target ctx rq d =
     (if truthy (hr_face_id rq)
      then (case find_face_by_id d (or_empty (hr_face_id rq)) of
              None \<Rightarrow> Inl (fail (FaceIdNotFound (or_empty (hr_face_id rq))))
            | Some fb \<Rightarrow> Inr fb)
      else (case hr_selector rq of
              None \<Rightarrow> Inl (fail (UnsupportedFaceSelector (or_empty (hr_face_selector rq))))
            | Some selector \<Rightarrow>
                (case resolve_body d (hr_body_name rq) of
                   (None, bodies) \<Rightarrow> Inl (body_failure (hr_body_name rq) bodies)
                 | (Some body, bodies) \<Rightarrow>
                     (case select_face (convert_mm ctx) selector (body_faces body) of
                        (None, n) \<Rightarrow> Inl (fail NoFacesMatched)
                      | (Some selected, n) \<Rightarrow> Inr (cand_face selected, body)))))"

definition hole_handle ::
  "hole_plan host \<Rightarrow> req_context \<Rightarrow> hole_request \<Rightarrow> world \<Rightarrow> hole_plan response \<times> world" where
  "hole_handle h ctx rq w =
     (case hole_validate ctx rq of
        Inl e \<Rightarrow> (fail e, w)
      | Inr (center, diameter_mm, depth_mm) \<Rightarrow>
          (case hole_target ctx rq (doc w) of
             Inl r \<Rightarrow> (r, w)
           | Inr (face, body) \<Rightarrow>
               (let p = \<lparr>hp_body_name = Some (body_name body),
                         hp_face_id = entity_id (face_ident face),
                         hp_face_selector = hr_face_selector rq,
                         hp_center_mm = center,
                         hp_diameter_mm = diameter_mm,
                         hp_depth_mm = depth_mm,
                         hp_through_all = hr_through_all rq\<rparr>
                in if hr_preview rq then (succeed (previewed p), w)
                   else mutate Hole h True p w)))"


section \<open>\<^verbatim>\<open>revolve_feature.py\<close>\<close>

text \<open>
  \<^verbatim>\<open>axis_line_mm\<close> as the code tests it: not a dict, or a dict whose \<^verbatim>\<open>p1\<close> and
  \<^verbatim>\<open>p2\<close> are each not a dict (\<open>None\<close>), or a dict whose coordinates are read with
  \<^verbatim>\<open>float\<close> (\<open>Some None\<close> when one of them raises).
\<close>

datatype json_axis_line =
    AxisLineNotDict
  | AxisLinePoints "vec3 option option" "vec3 option option"

datatype axis_plan =
    AxisByEdgeId string
  | AxisBySelector string
  | AxisByLine json_axis_line

text \<open>
  \<open>rr_axis_line_mm\<close> is \<open>None\<close> when the value is missing or falsy; \<open>rr_axis_parsed\<close> is
  what \<^verbatim>\<open>_parse_edge_selector\<close> returns for \<open>rr_axis_selector\<close>.
\<close>

record revolve_request =
  rr_sketch_id :: "string option"
  rr_profile_curve_ids :: "string list option"
  rr_axis_selector :: "string option"
  rr_axis_parsed :: "edge_selector option"
  rr_axis_line_mm :: "json_axis_line option"
  rr_edge_id :: "string option"
  rr_body_name :: "string option"
  rr_angle_deg :: "real option"
  rr_operation :: string
  rr_preview :: bool

record revolve_plan =
  rp_profile_sketch_id :: string
  rp_profile_curve_ids :: "string list option"
  rp_axis :: axis_plan
  rp_angle_deg :: real
  rp_operation :: string

definition find_sketch :: "document \<Rightarrow> string \<Rightarrow> sketch option" where
  "find_sketch d sketch_id =
     find (\<lambda>sk. entity_id (sketch_ident sk) = Some sketch_id) (sketches d)"

text \<open>
  \<^verbatim>\<open>_find_profile\<close>: without curve ids the first profile of the sketch, else the first
  profile whose curves carry all the given ids.
\<close>

definition find_profile :: "sketch \<Rightarrow> string list \<Rightarrow> profile option" where
  "find_profile sk curve_ids =
     (if curve_ids = []
      then (case sketch_profiles sk of [] \<Rightarrow> None | pr # rest \<Rightarrow> Some pr)
      else find (\<lambda>pr. set curve_ids \<subseteq> set (profile_curve_ids pr)) (sketch_profiles sk))"

definition find_edge_by_id :: "document \<Rightarrow> string \<Rightarrow> edge option" where
  "find_edge_by_id d edge_id =
     find (\<lambda>e. entity_id (edge_ident e) = Some edge_id)
       (concat (map body_edges (list_visible_bodies d)))"

text \<open>
  \<^verbatim>\<open>units_mgr.convert(v, "mm", units_mgr.internalUnits)\<close> on the three coordinates of a
  point, with no fallback: \<open>None\<close> when there is no units manager or a call raises.
\<close>

definition point_to_internal :: "req_context \<Rightarrow> vec3 \<Rightarrow> vec3 option" where
  "point_to_internal ctx pt =
     (case (units_to_internal ctx, pt) of
        (None, q) \<Rightarrow> None
      | (Some cv, (x, y, z)) \<Rightarrow>
          (case (cv x, cv y, cv z) of
             (Some x', Some y', Some z') \<Rightarrow> Some (x', y', z')
           | _ \<Rightarrow> None))"

text \<open>
  The axis of the revolve: an edge found by id, an edge found by selector, or a
  construction axis that is created in the document from the two given points. The
  result is the failure response or the \<^verbatim>\<open>axis_plan\<close>, and the world left behind.
  (When the unit conversion raises, the message carries the text of that exception, which
  is not modelled.)
\<close>

definition revolve_axis ::
  "revolve_plan host \<Rightarrow> req_context \<Rightarrow> revolve_request \<Rightarrow> world \<Rightarrow>
   (revolve_plan response + axis_plan) \<times> world" where
  "revolve_axis h ctx rq w =
     (if truthy (rr_edge_id rq)
      then (case find_edge_by_id (doc w) (or_empty (rr_edge_id rq)) of
              None \<Rightarrow> (Inl (fail (EdgeIdNotFound (or_empty (rr_edge_id rq)))), w)
            | Some e \<Rightarrow> (Inr (AxisByEdgeId (or_empty (rr_edge_id rq))), w))
      else if truthy (rr_axis_selector rq)
      then (case rr_axis_parsed rq of
              None \<Rightarrow> (Inl (fail (UnsupportedAxisSelector (or_empty (rr_axis_selector rq)))), w)
            | Some selector \<Rightarrow>
                (case resolve_body (doc w) (rr_body_name rq) of
                   (None, bodies) \<Rightarrow> (Inl (body_failure (rr_body_name rq) bodies), w)
                 | (Some body, bodies) \<Rightarrow>
                     (case select_edge (convert_mm ctx) selector None (body_edges body) of
                        (None, n) \<Rightarrow> (Inl (fail NoEdgesMatchedAxisSelector), w)
                      | (Some selected, n) \<Rightarrow>
                          (Inr (AxisBySelector (or_empty (rr_axis_selector rq))), w))))
      else (case rr_axis_line_mm rq of
              None \<Rightarrow> (Inl (fail AxisRequired), w)
            | Some AxisLineNotDict \<Rightarrow> (Inl (fail AxisLineNotObject), w)
            | Some (AxisLinePoints None p2) \<Rightarrow> (Inl (fail AxisLinePointsMissing), w)
            | Some (AxisLinePoints (Some q1) None) \<Rightarrow> (Inl (fail AxisLinePointsMissing), w)
            | Some (AxisLinePoints (Some None) (Some q2)) \<Rightarrow>
                (Inl (fail AxisLinePointsNotNumeric), w)
            | Some (AxisLinePoints (Some (Some p1)) (Some None)) \<Rightarrow>
                (Inl (fail AxisLinePointsNotNumeric), w)
            | Some (AxisLinePoints (Some (Some p1)) (Some (Some p2))) \<Rightarrow>
                (case (point_to_internal ctx p1, point_to_internal ctx p2) of
                   (Some p1i, Some p2i) \<Rightarrow>
                     (case do_add_axis h p1i p2i w of
                        (Inl exc, w1) \<Rightarrow> (Inl (fail (AxisCreationFailed exc)), w1)
                      | (Inr ax, w1) \<Rightarrow>
                          (Inr (AxisByLine (AxisLinePoints (Some (Some p1)) (Some (Some p2)))),
                           w1))
                 | _ \<Rightarrow> (Inl (fail (AxisCreationFailed ''units conversion raised'')), w))))"

definition revolve_handle ::
  "revolve_plan host \<Rightarrow> req_context \<Rightarrow> revolve_request \<Rightarrow> world \<Rightarrow>
   revolve_plan response \<times> world" where
  "revolve_handle h ctx rq w =
     (if \<not> has_design ctx \<or> \<not> has_root_comp ctx then (fail NoActiveDesign, w)
      else if \<not> truthy (rr_sketch_id rq) then (fail ProfileSketchIdRequired, w)
      else (case rr_angle_deg rq of
              None \<Rightarrow> (fail AngleNotNumeric, w)
            | Some angle_deg \<Rightarrow>
                if rr_operation rq \<notin> set operations
                then (fail (UnsupportedOperation (rr_operation rq)), w)
                else (case find_sketch (doc w) (or_empty (rr_sketch_id rq)) of
                        None \<Rightarrow> (fail (ProfileSketchNotFound (or_empty (rr_sketch_id rq))), w)
                      | Some sk \<Rightarrow>
                          (case find_profile sk
                                  (case rr_profile_curve_ids rq of None \<Rightarrow> [] | Some ids \<Rightarrow> ids) of
                             None \<Rightarrow> (fail ProfileNotResolved, w)
                           | Some pr \<Rightarrow>
                               (case revolve_axis h ctx rq w of
                                  (Inl r, w1) \<Rightarrow> (r, w1)
                                | (Inr axis_plan, w1) \<Rightarrow>
                                    (let p = \<lparr>rp_profile_sketch_id = or_empty (rr_sketch_id rq),
                                              rp_profile_curve_ids = rr_profile_curve_ids rq,
                                              rp_axis = axis_plan,
                                              rp_angle_deg = angle_deg,
                                              rp_operation = rr_operation rq\<rparr>
                                     in if rr_preview rq then (succeed (previewed p), w1)
                                        else mutate Revolve h True p w1))))))"


section \<open>Example documents and hosts\<close>

definition ident_none :: ident where
  "ident_none = \<lparr>entityToken = None, tempId = None, entityId = None\<rparr>"

definition ident_of :: "string \<Rightarrow> ident" where
  "ident_of t = \<lparr>entityToken = Some t, tempId = None, entityId = None\<rparr>"

text \<open>A planar face with normal +Z, the given centroid and area, and no bounding box.\<close>

definition flat_face :: "nat \<Rightarrow> ident \<Rightarrow> vec3 \<Rightarrow> real \<Rightarrow> face" where
  "flat_face r i c a =
     \<lparr>face_ref = r, face_ident = i,
      face_geometry = Some \<lparr>surfaceType = Some PlaneSurfaceType, isPlane = Some True,
                             geom_normal = Some (0, 0, 1)\<rparr>,
      face_centroid = Some c, face_area = Some a, face_bbox = None\<rparr>"

definition solid_body :: "nat \<Rightarrow> string \<Rightarrow> string \<Rightarrow> face list \<Rightarrow> body" where
  "solid_body r tok name fs =
     \<lparr>body_ref = r, body_ident = ident_of tok, body_name = name, isSolid = Some True,
      isVisible = Some True, body_faces = fs, body_edges = [], body_vertex_count = 0,
      body_bbox = Some ((0, 0, 0), (1, 1, 1)), body_volume = Some 1\<rparr>"

definition ex_body :: body where
  "ex_body = solid_body 1 ''b1'' ''Body1''
     [flat_face 1 (ident_of ''f1'') (0, 0, 0) 4, flat_face 2 (ident_of ''f2'') (1, 0, 0) 2]"

definition ex_new_body :: body where
  "ex_new_body = solid_body 2 ''b2'' ''Body2'' [flat_face 3 (ident_of ''f3'') (0, 0, 1) 4]"

definition ex_big_body :: body where
  "ex_big_body = solid_body 3 ''b3'' ''Body3'' (replicate 501 (flat_face 4 ident_none (0, 0, 0) 1))"

definition ex_sketch :: sketch where
  "ex_sketch = \<lparr>sketch_ident = ident_of ''sk1'',
                sketch_profiles = [\<lparr>profile_ref = 1, profile_curve_ids = [''c1'']\<rparr>]\<rparr>"

definition ex_doc :: document where
  "ex_doc = \<lparr>bRepBodies = [ex_body], sketches = [ex_sketch], features = [],
             constructionAxes = []\<rparr>"

definition ex_world :: world where
  "ex_world = \<lparr>doc = ex_doc, calls = []\<rparr>"

definition ex_feature :: feature where
  "ex_feature = \<lparr>feature_ident = ident_of ''feat1'', feature_name = Some ''Feature1''\<rparr>"

text \<open>
  A host whose \<^verbatim>\<open>add\<close> creates \<open>ex_feature\<close> and the given bodies, whose recompute and
  delete succeed or raise as told, and which reports the given elapsed time. A delete
  that succeeds removes the feature and its bodies.
\<close>

definition ex_host :: "body list \<Rightarrow> bool \<Rightarrow> bool \<Rightarrow> real \<Rightarrow> 'p host" where
  "ex_host added compute_ok delete_ok elapsed =
     \<lparr>host_add = (\<lambda>k p d. (Inr ex_feature,
                     d\<lparr>bRepBodies := bRepBodies d @ added, features := features d @ [ex_feature]\<rparr>)),
      host_computeAll = (\<lambda>d. (compute_ok, d)),
      host_deleteMe = (\<lambda>f d. (delete_ok,
                     if delete_ok
                     then d\<lparr>bRepBodies := filter (\<lambda>b. body_ref b \<notin> set (map body_ref added))
                                              (bRepBodies d),
                            features := removeAll f (features d)\<rparr>
                     else d)),
      host_addAxis = (\<lambda>p1 p2 d. (Inr (length (constructionAxes d)),
                     d\<lparr>constructionAxes := constructionAxes d @ [(p1, p2)]\<rparr>)),
      host_elapsed_ms = elapsed,
      host_elapsed_check_ms = elapsed\<rparr>"

definition ex_ctx :: req_context where
  "ex_ctx = \<lparr>has_design = True, has_root_comp = True,
             units_to_internal = Some (\<lambda>v. Some (v / 10)),
             convert_mm = (\<lambda>v. v * 10)\<rparr>"

definition ex_extrude :: "real \<Rightarrow> bool \<Rightarrow> extrude_request" where
  "ex_extrude distance preview =
     \<lparr>xr_body_name = None, xr_face_selector = ''largest_planar'',
      xr_selector = Some LargestPlanar, xr_operation = ''new_body'',
      xr_distance_mm = Some distance, xr_direction = ''normal'', xr_preview = preview,
      xr_compute = True, xr_units = ''mm'', xr_tolerance_mm = 1 / 10,
      xr_tolerance_pct = 1\<rparr>"

definition ex_revolve_preview :: revolve_request where
  "ex_revolve_preview =
     \<lparr>rr_sketch_id = Some ''sk1'', rr_profile_curve_ids = None, rr_axis_selector = None,
      rr_axis_parsed = None,
      rr_axis_line_mm = Some (AxisLinePoints (Some (Some (0, 0, 0))) (Some (Some (0, 0, 10)))),
      rr_edge_id = None, rr_body_name = None, rr_angle_deg = Some 360,
      rr_operation = ''new_body'', rr_preview = True\<rparr>"


definition ex_other_body :: body where
  "ex_other_body = solid_body 4 ''b4'' ''Body4'' [flat_face 5 (ident_of ''f5'') (0, 0, 2) 4]"

text \<open>
  A host whose \<^verbatim>\<open>add\<close> leaves two new bodies in place of the bodies of the document.
\<close>

definition ex_replacing_host :: "'p host" where
  "ex_replacing_host =
     (ex_host [] True True 10)
       \<lparr>host_add := (\<lambda>k p d. (Inr ex_feature,
            d\<lparr>bRepBodies := [ex_new_body, ex_other_body],
              features := features d @ [ex_feature]\<rparr>))\<rparr>"

definition ex_plan :: extrude_plan where
  "ex_plan =
     \<lparr>xp_body_name = ''Body1'', xp_face_id = ''f1'', xp_face_selector = ''largest_planar'',
      xp_centroid_mm = (0, 0, 0), xp_normal = Some (0, 0, 1), xp_area_mm2 = Some 400,
      xp_operation = ''new_body'', xp_distance_mm = 10, xp_direction = ''normal''\<rparr>"

section \<open>The guardrail claims as predicates\<close>

definition is_guardrail_error :: "error option \<Rightarrow> bool" where
  "is_guardrail_error err =
     (case err of Some (GuardrailExceeded g) \<Rightarrow> True | _ \<Rightarrow> False)"

text \<open>
  Spec wording, section 4.2 step 6: the bounds are taken in the order elapsed time, face
  delta, edge delta, body delta, and the first one that is breached is the one error
  reported, whatever the later ones are; when none is breached no guardrail error is
  reported. \<open>err\<close> is the \<^verbatim>\<open>error\<close> of the response.
\<close>

definition first_breach_reported ::
  "thresholds \<Rightarrow> real \<Rightarrow> int \<times> int \<times> int \<Rightarrow> error option \<Rightarrow> bool" where
  "first_breach_reported t elapsed deltas err =
     (case deltas of (face_delta, edge_delta, body_delta) \<Rightarrow>
        (elapsed > MAX_APPLY_MS t \<longrightarrow> err = Some (GuardrailExceeded ApplyMs))
      \<and> (elapsed \<le> MAX_APPLY_MS t \<and> face_delta > MAX_FACE_DELTA t \<longrightarrow>
            err = Some (GuardrailExceeded FaceCountDelta))
      \<and> (elapsed \<le> MAX_APPLY_MS t \<and> face_delta \<le> MAX_FACE_DELTA t
            \<and> edge_delta > MAX_EDGE_DELTA t \<longrightarrow>
            err = Some (GuardrailExceeded EdgeCountDelta))
      \<and> (elapsed \<le> MAX_APPLY_MS t \<and> face_delta \<le> MAX_FACE_DELTA t
            \<and> edge_delta \<le> MAX_EDGE_DELTA t \<and> body_delta > MAX_BODY_DELTA t \<longrightarrow>
            err = Some (GuardrailExceeded BodyCountDelta))
      \<and> (elapsed \<le> MAX_APPLY_MS t \<and> face_delta \<le> MAX_FACE_DELTA t
            \<and> edge_delta \<le> MAX_EDGE_DELTA t \<and> body_delta \<le> MAX_BODY_DELTA t \<longrightarrow>
            \<not> is_guardrail_error err))"

text \<open>
  Spec wording, section 4.2 step 7, for a command that ends in the pair \<open>res\<close> of
  response and world after the guardrail \<open>g\<close> was breached in the world \<open>w2\<close>: the response
  is not ok, carries the one guardrail error and a \<^verbatim>\<open>data\<close> object with the plan and
  nothing else, and the host calls made after \<open>w2\<close> are the delete of the created feature,
  followed by a recompute or not.
\<close>

definition rolled_back ::
  "guardrail \<Rightarrow> 'p \<Rightarrow> feature \<Rightarrow> world \<Rightarrow> 'p response \<times> world \<Rightarrow> bool" where
  "rolled_back g p feat w2 res =
     (case res of (r, w') \<Rightarrow>
        resp_ok r = False
      \<and> resp_error r = Some (GuardrailExceeded g)
      \<and> resp_candidates r = None
      \<and> resp_data r =
          Some \<lparr>d_is_preview = None, d_plan = p, d_apply = None, d_measure_before = None,
                d_measure_after = None, d_verify = None, d_trace_faces = None\<rparr>
      \<and> (calls w' = calls w2 @ [CallDeleteMe feat]
          \<or> calls w' = calls w2 @ [CallDeleteMe feat, CallComputeAll]))"

section \<open>Unfolding sets\<close>

lemmas selection_defs =
  select_face_def face_candidates_def List.map_filter_def face_candidate_def is_planar_def
  is_normal_closest_def face_area_mm2_def length_factor_mm_def tie_key_def entity_id_def
  or_empty_def truthy_def bbox_mm_def

lemmas document_defs =
  list_visible_bodies_def resolve_body_def body_counts_def count_deltas_def body_key_def
  new_candidates_def refresh_def body_measurement_def body_bbox_mm_def volume_mm3_def

lemmas host_defs =
  do_add_def do_compute_def do_delete_def do_add_axis_def rollback_def try_apply_def
  compute_failure_fatal_def check_elapsed_def guardrail_check_def

lemmas response_defs =
  fail_def fail_plan_def fail_candidates_def succeed_def plan_only_def applied_def
  previewed_def body_failure_def

lemmas extrude_defs =
  extrude_handle_def extrude_validate_def extrude_make_plan_def extrude_mutate_def
  extrude_finish_def extrude_success_def extrude_verify_def with_source_def has_bbox_def
  has_volume_def face_normal_def operations_def MAX_EXTRUDE_MM_def

lemmas revolve_defs =
  revolve_handle_def revolve_axis_def find_sketch_def find_profile_def find_edge_by_id_def
  point_to_internal_def select_edge_def

lemmas example_defs =
  ident_none_def ident_of_def flat_face_def solid_body_def ex_body_def ex_new_body_def
  ex_big_body_def ex_sketch_def ex_doc_def ex_world_def ex_feature_def ex_host_def ex_ctx_def
  ex_extrude_def ex_revolve_preview_def ex_other_body_def ex_replacing_host_def

section \<open>Selector resolution and enumeration order\<close>











text \<open>
  Claim C8. Under \<^verbatim>\<open>largest_area\<close>, of two faces with the same area and the centroids
  (0,0,0) and (1,0,0), \<^verbatim>\<open>_select_face\<close> returns the face at (0,0,0), in whichever order the
  host enumerates them and whatever their tokens are. The unit conversion is assumed to
  keep 0 below 1, as every scaling by a positive factor does.
\<close>

theorem largest_area_tie_break:
  assumes "face_centroid f0 = Some (0, 0, 0)" and "face_centroid f1 = Some (1, 0, 0)"
    and "face_area f0 = Some a" and "face_area f1 = Some a"
    and "conv 0 < conv 1"
  shows "map_option cand_face (fst (select_face conv LargestArea [f0, f1])) = Some f0
       \<and> map_option cand_face (fst (select_face conv LargestArea [f1, f0])) = Some f0
       \<and> snd (select_face conv LargestArea [f0, f1]) = 2
       \<and> snd (select_face conv LargestArea [f1, f0]) = 2"
  using assms
  by (simp add: select_face_def face_candidates_def List.map_filter_def face_candidate_def
      is_normal_closest_def face_area_mm2_def tie_key_def)

text \<open>Witness for C8, with the conversion the add-in falls back to (times ten).\<close>

theorem largest_area_tie_break_witness:
  "map_option cand_face
     (fst (select_face (\<lambda>v. v * 10) LargestArea
        [flat_face 2 (ident_of ''f2'') (1, 0, 0) 4, flat_face 1 (ident_of ''f1'') (0, 0, 0) 4]))
   = Some (flat_face 1 (ident_of ''f1'') (0, 0, 0) 4)"
proof -
  have c0: "face_centroid (flat_face 1 (ident_of ''f1'') (0, 0, 0) 4) = Some (0, 0, 0)"
    and c1: "face_centroid (flat_face 2 (ident_of ''f2'') (1, 0, 0) 4) = Some (1, 0, 0)"
    and a0: "face_area (flat_face 1 (ident_of ''f1'') (0, 0, 0) 4) = Some 4"
    and a1: "face_area (flat_face 2 (ident_of ''f2'') (1, 0, 0) 4) = Some 4"
    by (simp_all add: flat_face_def)
  have m: "(\<lambda>v::real. v * 10) 0 < (\<lambda>v. v * 10) 1" by simp
  from largest_area_tie_break [OF c0 c1 a0 a1 m] show ?thesis by simp
qed

section \<open>The guardrail thresholds\<close>

text \<open>
  Claim C4, as amended. The thresholds of the commands are: face extrude 1500 ms, 150
  faces, 300 edges, 1 body; profile extrude and fillet 5000 ms, 300, 600, 1; hole 5000 ms,
  200, 400, 1; shell 5000 ms, 500, 1000, 1; pattern 5000 ms, 500, 1000, 20; mirror 1500 ms,
  400, 800, 10.
\<close>

theorem thresholds_table:
  "thresholds_of FaceExtrude =
     \<lparr>MAX_APPLY_MS = 1500, MAX_FACE_DELTA = 150, MAX_EDGE_DELTA = 300, MAX_BODY_DELTA = 1\<rparr>
   \<and> thresholds_of ProfileExtrude =
     \<lparr>MAX_APPLY_MS = 5000, MAX_FACE_DELTA = 300, MAX_EDGE_DELTA = 600, MAX_BODY_DELTA = 1\<rparr>
   \<and> thresholds_of Hole =
     \<lparr>MAX_APPLY_MS = 5000, MAX_FACE_DELTA = 200, MAX_EDGE_DELTA = 400, MAX_BODY_DELTA = 1\<rparr>
   \<and> thresholds_of Fillet =
     \<lparr>MAX_APPLY_MS = 5000, MAX_FACE_DELTA = 300, MAX_EDGE_DELTA = 600, MAX_BODY_DELTA = 1\<rparr>
   \<and> thresholds_of Shell =
     \<lparr>MAX_APPLY_MS = 5000, MAX_FACE_DELTA = 500, MAX_EDGE_DELTA = 1000, MAX_BODY_DELTA = 1\<rparr>
   \<and> thresholds_of PatternRectangular =
     \<lparr>MAX_APPLY_MS = 5000, MAX_FACE_DELTA = 500, MAX_EDGE_DELTA = 1000, MAX_BODY_DELTA = 20\<rparr>
   \<and> thresholds_of PatternCircular =
     \<lparr>MAX_APPLY_MS = 5000, MAX_FACE_DELTA = 500, MAX_EDGE_DELTA = 1000, MAX_BODY_DELTA = 20\<rparr>
   \<and> thresholds_of Mirror =
     \<lparr>MAX_APPLY_MS = 1500, MAX_FACE_DELTA = 400, MAX_EDGE_DELTA = 800, MAX_BODY_DELTA = 10\<rparr>"
  by simp

text \<open>
  Counterexample to C4 as stated: the hole command does not have the thresholds of
  profile extrude and fillet.
\<close>

theorem hole_thresholds_counterexample:
  "thresholds_of Hole \<noteq>
     \<lparr>MAX_APPLY_MS = 5000, MAX_FACE_DELTA = 300, MAX_EDGE_DELTA = 600, MAX_BODY_DELTA = 1\<rparr>"
  by simp


section \<open>The guardrail check and the rollback\<close>

lemma guardrail_check_reported:
  "first_breach_reported t elapsed deltas
     (map_option GuardrailExceeded (guardrail_check t elapsed deltas))"
  by (cases deltas)
    (auto simp: first_breach_reported_def guardrail_check_def is_guardrail_error_def)

lemma mutate_error:
  assumes "try_apply kind h compute p w = (Inr (feat, cr), w2)"
  shows "resp_error (fst (mutate kind h compute p w)) =
           map_option GuardrailExceeded
             (guardrail_check (thresholds_of kind) (check_elapsed kind h)
                (count_deltas (list_visible_bodies (doc w)) (list_visible_bodies (doc w2))))"
  using assms by (simp add: mutate_def Let_def fail_plan_def succeed_def split: option.splits)

lemma extrude_finish_error:
  "\<not> is_guardrail_error
       (resp_error (fst (extrude_finish h ctx rq body p n bv mb feat cr t w)))"
  by (simp add: extrude_finish_def extrude_success_def Let_def fail_plan_def succeed_def
      is_guardrail_error_def split: list.splits)

lemma extrude_mutate_passed:
  assumes "try_apply FaceExtrude h (xr_compute rq) p w = (Inr (feat, cr), w2)"
    and "guardrail_check (thresholds_of FaceExtrude) (host_elapsed_ms h)
           (count_deltas (list_visible_bodies (doc w)) (list_visible_bodies (doc w2))) = None"
  shows "extrude_mutate h ctx rq body p n w =
           extrude_finish h ctx rq body p n (list_visible_bodies (doc w))
             (body_measurement (convert_mm ctx) body) feat cr (host_elapsed_ms h) w2"
  using assms by (simp add: extrude_mutate_def Let_def)

lemma extrude_mutate_error:
  assumes ap: "try_apply FaceExtrude h (xr_compute rq) p w = (Inr (feat, cr), w2)"
  shows "first_breach_reported (thresholds_of FaceExtrude) (host_elapsed_ms h)
           (count_deltas (list_visible_bodies (doc w)) (list_visible_bodies (doc w2)))
           (resp_error (fst (extrude_mutate h ctx rq body p n w)))"
proof -
  let ?t = "thresholds_of FaceExtrude" and ?e = "host_elapsed_ms h"
  let ?d = "count_deltas (list_visible_bodies (doc w)) (list_visible_bodies (doc w2))"
  note rep = guardrail_check_reported [of ?t ?e ?d]
  show ?thesis
  proof (cases "guardrail_check ?t ?e ?d")
    case None
    have "\<not> is_guardrail_error (resp_error (fst (extrude_mutate h ctx rq body p n w)))"
      unfolding extrude_mutate_passed [OF ap None] by (rule extrude_finish_error)
    with rep None show ?thesis
      by (auto simp: first_breach_reported_def is_guardrail_error_def split: prod.splits)
  next
    case (Some g)
    with ap have "resp_error (fst (extrude_mutate h ctx rq body p n w))
                    = Some (GuardrailExceeded g)"
      by (simp add: extrude_mutate_def Let_def fail_plan_def)
    with rep Some show ?thesis by simp
  qed
qed

text \<open>
  Claim C2. In every mutating command, once the apply has returned a feature, the error
  reported is that of the first breached bound in the order elapsed time, face delta,
  edge delta, body delta, whatever the later bounds are. The first half is the block
  shared by profile extrude, hole, fillet, shell, pattern, mirror and revolve (for hole
  the elapsed time is the fresh clock reading), the second half is face extrude.
\<close>

theorem guardrail_order:
  "(try_apply kind h compute p w = (Inr (feat, cr), w2) \<longrightarrow>
      first_breach_reported (thresholds_of kind) (check_elapsed kind h)
        (count_deltas (list_visible_bodies (doc w)) (list_visible_bodies (doc w2)))
        (resp_error (fst (mutate kind h compute p w))))
   \<and> (try_apply FaceExtrude hx (xr_compute rq) px wx = (Inr (featx, crx), wx2) \<longrightarrow>
      first_breach_reported (thresholds_of FaceExtrude) (host_elapsed_ms hx)
        (count_deltas (list_visible_bodies (doc wx)) (list_visible_bodies (doc wx2)))
        (resp_error (fst (extrude_mutate hx ctx rq body px n wx))))"
proof (intro conjI impI)
  assume a: "try_apply kind h compute p w = (Inr (feat, cr), w2)"
  show "first_breach_reported (thresholds_of kind) (check_elapsed kind h)
        (count_deltas (list_visible_bodies (doc w)) (list_visible_bodies (doc w2)))
        (resp_error (fst (mutate kind h compute p w)))"
    unfolding mutate_error [OF a] by (rule guardrail_check_reported)
next
  assume "try_apply FaceExtrude hx (xr_compute rq) px wx = (Inr (featx, crx), wx2)"
  then show "first_breach_reported (thresholds_of FaceExtrude) (host_elapsed_ms hx)
        (count_deltas (list_visible_bodies (doc wx)) (list_visible_bodies (doc wx2)))
        (resp_error (fst (extrude_mutate hx ctx rq body px n wx)))"
    by (rule extrude_mutate_error)
qed

text \<open>
  Witness for C2: a fillet that takes 6000 ms and adds 501 faces reports the time, and a
  face extrude that takes 10 ms and adds 501 faces and one body reports the faces.
\<close>

theorem guardrail_order_witness:
  "resp_error (fst (mutate Fillet (ex_host [ex_big_body] True True 6000) True () ex_world))
     = Some (GuardrailExceeded ApplyMs)
   \<and> resp_error (fst (extrude_mutate (ex_host [ex_big_body] True True 10) ex_ctx
        (ex_extrude 10 False) ex_body ex_plan 2 ex_world))
     = Some (GuardrailExceeded FaceCountDelta)"
proof -
  let ?w2 = "\<lparr>doc = ex_doc\<lparr>bRepBodies := [ex_body, ex_big_body], features := [ex_feature]\<rparr>,
               calls = [CallAdd Fillet, CallComputeAll]\<rparr>"
  let ?wx2 = "\<lparr>doc = ex_doc\<lparr>bRepBodies := [ex_body, ex_big_body], features := [ex_feature]\<rparr>,
               calls = [CallAdd FaceExtrude, CallComputeAll]\<rparr>"
  have a: "try_apply Fillet (ex_host [ex_big_body] True True 6000) True () ex_world
             = (Inr (ex_feature, True), ?w2)"
    by (simp add: host_defs example_defs)
  have b: "try_apply FaceExtrude (ex_host [ex_big_body] True True 10)
             (xr_compute (ex_extrude 10 False)) ex_plan ex_world
             = (Inr (ex_feature, True), ?wx2)"
    by (simp add: host_defs example_defs)
  have d: "count_deltas (list_visible_bodies (doc ex_world)) (list_visible_bodies (doc ?w2))
             = (501, 0, 1)"
    by (simp add: document_defs example_defs)
  have dx: "count_deltas (list_visible_bodies (doc ex_world)) (list_visible_bodies (doc ?wx2))
             = (501, 0, 1)"
    by (simp add: document_defs example_defs)
  from guardrail_order [THEN conjunct1, rule_format, OF a]
  have 1: "resp_error (fst (mutate Fillet (ex_host [ex_big_body] True True 6000) True () ex_world))
     = Some (GuardrailExceeded ApplyMs)"
    unfolding d by (simp add: first_breach_reported_def check_elapsed_def ex_host_def)
  from guardrail_order [THEN conjunct2, rule_format, OF b]
  have 2: "resp_error (fst (extrude_mutate (ex_host [ex_big_body] True True 10) ex_ctx
        (ex_extrude 10 False) ex_body ex_plan 2 ex_world))
     = Some (GuardrailExceeded FaceCountDelta)"
    unfolding dx by (simp add: first_breach_reported_def ex_host_def)
  from 1 2 show ?thesis by simp
qed

lemma rollback_calls:
  "calls (rollback h rc feat w) = calls w @ [CallDeleteMe feat]
   \<or> calls (rollback h rc feat w) = calls w @ [CallDeleteMe feat, CallComputeAll]"
  by (auto simp: rollback_def do_delete_def do_compute_def split: prod.splits)


text \<open>
  Claim C3. When the guardrail check fails after an apply that returned a feature, the
  response is not ok, its error is the guardrail error, its data holds the plan and
  neither apply nor measurements, and the delete of the created feature is issued. This
  holds for every host, so also for one whose delete or recompute raises: nothing of the
  rollback reaches the response.
\<close>

theorem guardrail_rollback:
  "(try_apply kind h compute p w = (Inr (feat, cr), w2)
      \<and> guardrail_check (thresholds_of kind) (check_elapsed kind h)
           (count_deltas (list_visible_bodies (doc w)) (list_visible_bodies (doc w2)))
          = Some g \<longrightarrow>
      rolled_back g p feat w2 (mutate kind h compute p w))
   \<and> (try_apply FaceExtrude hx (xr_compute rq) px wx = (Inr (featx, crx), wx2)
      \<and> guardrail_check (thresholds_of FaceExtrude) (host_elapsed_ms hx)
           (count_deltas (list_visible_bodies (doc wx)) (list_visible_bodies (doc wx2)))
          = Some gx \<longrightarrow>
      rolled_back gx px featx wx2 (extrude_mutate hx ctx rq body px n wx))"
  using rollback_calls [of h "rollback_recompute kind compute" feat w2]
    rollback_calls [of hx "xr_compute rq" featx wx2]
  by (auto simp: rolled_back_def mutate_def extrude_mutate_def Let_def fail_plan_def plan_only_def)

text \<open>
  Witness for C3: a hole and a face extrude that add 501 faces, on a host whose delete
  raises.
\<close>

theorem guardrail_rollback_witness:
  "rolled_back FaceCountDelta () ex_feature
     \<lparr>doc = ex_doc\<lparr>bRepBodies := [ex_body, ex_big_body], features := [ex_feature]\<rparr>,
      calls = [CallAdd Hole, CallComputeAll]\<rparr>
     (mutate Hole (ex_host [ex_big_body] True False 10) True () ex_world)
   \<and> rolled_back FaceCountDelta ex_plan ex_feature
     \<lparr>doc = ex_doc\<lparr>bRepBodies := [ex_body, ex_big_body], features := [ex_feature]\<rparr>,
      calls = [CallAdd FaceExtrude, CallComputeAll]\<rparr>
     (extrude_mutate (ex_host [ex_big_body] True False 10) ex_ctx
        (ex_extrude 10 False) ex_body ex_plan 2 ex_world)"
proof -
  let ?w2 = "\<lparr>doc = ex_doc\<lparr>bRepBodies := [ex_body, ex_big_body], features := [ex_feature]\<rparr>,
               calls = [CallAdd Hole, CallComputeAll]\<rparr>"
  let ?wx2 = "\<lparr>doc = ex_doc\<lparr>bRepBodies := [ex_body, ex_big_body], features := [ex_feature]\<rparr>,
               calls = [CallAdd FaceExtrude, CallComputeAll]\<rparr>"
  have a: "try_apply Hole (ex_host [ex_big_body] True False 10) True () ex_world
             = (Inr (ex_feature, True), ?w2)"
    by (simp add: host_defs example_defs)
  have b: "try_apply FaceExtrude (ex_host [ex_big_body] True False 10)
             (xr_compute (ex_extrude 10 False)) ex_plan ex_world
             = (Inr (ex_feature, True), ?wx2)"
    by (simp add: host_defs example_defs)
  have g: "guardrail_check (thresholds_of Hole)
             (check_elapsed Hole (ex_host [ex_big_body] True False 10))
             (count_deltas (list_visible_bodies (doc ex_world)) (list_visible_bodies (doc ?w2)))
             = Some FaceCountDelta"
    by (simp add: host_defs document_defs example_defs)
  have gx: "guardrail_check (thresholds_of FaceExtrude)
             (host_elapsed_ms (ex_host [ex_big_body] True False 10))
             (count_deltas (list_visible_bodies (doc ex_world)) (list_visible_bodies (doc ?wx2)))
             = Some FaceCountDelta"
    by (simp add: host_defs document_defs example_defs)
  from guardrail_rollback [THEN conjunct1, rule_format, OF conjI, OF a g]
    guardrail_rollback [THEN conjunct2, rule_format, OF conjI, OF b gx]
  show ?thesis by simp
qed


section \<open>A recompute that fails\<close>

text \<open>
  Claim C5, as amended. In profile extrude, hole, fillet, shell, pattern, mirror and
  revolve, a recompute that raises after the apply has returned a feature sets
  \<^verbatim>\<open>compute.ran\<close> to false and changes nothing else: nothing is deleted, and when
  no guardrail is breached the command returns ok with no error. In face extrude
  (\<^verbatim>\<open>extrude_feature.py\<close>) a recompute that raises is fatal: the created feature is
  deleted and the response is the failure "Extrude failed: Design compute failed" with
  the plan.
\<close>

theorem recompute_failure:
  "(kind \<noteq> FaceExtrude
      \<and> host_add h kind p (doc w) = (Inr feat, d1)
      \<and> compute_requested kind compute
      \<and> host_computeAll h d1 = (False, d2)
    \<longrightarrow> try_apply kind h compute p w
          = (Inr (feat, False), \<lparr>doc = d2, calls = calls w @ [CallAdd kind, CallComputeAll]\<rparr>)
      \<and> (guardrail_check (thresholds_of kind) (check_elapsed kind h)
            (count_deltas (list_visible_bodies (doc w)) (list_visible_bodies d2)) = None
          \<longrightarrow> mutate kind h compute p w
                = (succeed (applied p feat False (host_elapsed_ms h)),
                   \<lparr>doc = d2, calls = calls w @ [CallAdd kind, CallComputeAll]\<rparr>)))
   \<and> (host_add hx FaceExtrude px (doc wx) = (Inr featx, dx1)
        \<and> xr_compute rq
        \<and> host_computeAll hx dx1 = (False, dx2)
      \<longrightarrow> fst (extrude_mutate hx ctx rq body px n wx)
            = fail_plan (ApplyFailed FaceExtrude ''Design compute failed'') px
        \<and> calls (snd (extrude_mutate hx ctx rq body px n wx))
            = calls wx @ [CallAdd FaceExtrude, CallComputeAll, CallDeleteMe featx])"
proof (intro conjI impI)
  assume a: "kind \<noteq> FaceExtrude
      \<and> host_add h kind p (doc w) = (Inr feat, d1)
      \<and> compute_requested kind compute
      \<and> host_computeAll h d1 = (False, d2)"
  then show t: "try_apply kind h compute p w
          = (Inr (feat, False), \<lparr>doc = d2, calls = calls w @ [CallAdd kind, CallComputeAll]\<rparr>)"
    by (simp add: try_apply_def do_add_def do_compute_def compute_failure_fatal_def)
  assume "guardrail_check (thresholds_of kind) (check_elapsed kind h)
            (count_deltas (list_visible_bodies (doc w)) (list_visible_bodies d2)) = None"
  then show "mutate kind h compute p w
                = (succeed (applied p feat False (host_elapsed_ms h)),
                   \<lparr>doc = d2, calls = calls w @ [CallAdd kind, CallComputeAll]\<rparr>)"
    by (simp add: mutate_def t Let_def)
next
  assume a: "host_add hx FaceExtrude px (doc wx) = (Inr featx, dx1)
        \<and> xr_compute rq \<and> host_computeAll hx dx1 = (False, dx2)"
  then show "fst (extrude_mutate hx ctx rq body px n wx)
            = fail_plan (ApplyFailed FaceExtrude ''Design compute failed'') px"
    by (simp add: extrude_mutate_def try_apply_def do_add_def do_compute_def do_delete_def
        compute_failure_fatal_def Let_def split: prod.splits)
  from a show "calls (snd (extrude_mutate hx ctx rq body px n wx))
            = calls wx @ [CallAdd FaceExtrude, CallComputeAll, CallDeleteMe featx]"
    by (simp add: extrude_mutate_def try_apply_def do_add_def do_compute_def do_delete_def
        compute_failure_fatal_def Let_def split: prod.splits)
qed

text \<open>
  Witness for C5: on a host whose recompute raises, a fillet returns ok with
  \<^verbatim>\<open>compute.ran\<close> false, and a face extrude returns the failure.
\<close>

theorem recompute_failure_witness:
  "mutate Fillet (ex_host [] False True 10) True () ex_world
     = (succeed (applied () ex_feature False 10),
        \<lparr>doc = ex_doc\<lparr>features := [ex_feature]\<rparr>, calls = [CallAdd Fillet, CallComputeAll]\<rparr>)
   \<and> fst (extrude_mutate (ex_host [ex_new_body] False True 10) ex_ctx (ex_extrude 10 False)
        ex_body ex_plan 2 ex_world)
     = fail_plan (ApplyFailed FaceExtrude ''Design compute failed'') ex_plan"
proof -
  let ?h = "ex_host [] False True 10 :: unit host"
  let ?hx = "ex_host [ex_new_body] False True 10 :: extrude_plan host"
  let ?d = "ex_doc\<lparr>features := [ex_feature]\<rparr>"
  let ?dx = "ex_doc\<lparr>bRepBodies := [ex_body, ex_new_body], features := [ex_feature]\<rparr>"
  have a: "Fillet \<noteq> FaceExtrude
      \<and> host_add ?h Fillet () (doc ex_world) = (Inr ex_feature, ?d)
      \<and> compute_requested Fillet True
      \<and> host_computeAll ?h ?d = (False, ?d)"
    by (simp add: example_defs)
  have g: "guardrail_check (thresholds_of Fillet) (check_elapsed Fillet ?h)
             (count_deltas (list_visible_bodies (doc ex_world)) (list_visible_bodies ?d)) = None"
    by (simp add: host_defs document_defs example_defs)
  have ax: "host_add ?hx FaceExtrude ex_plan (doc ex_world) = (Inr ex_feature, ?dx)
           \<and> xr_compute (ex_extrude 10 False)
           \<and> host_computeAll ?hx ?dx = (False, ?dx)"
    by (simp add: example_defs)
  have e: "host_elapsed_ms ?h = 10" and c: "calls ex_world = []"
    by (simp_all add: ex_host_def ex_world_def)
  note r1 = recompute_failure [THEN conjunct1, rule_format, OF a, THEN conjunct2, rule_format,
      OF g, unfolded e c]
  note r2 = recompute_failure [THEN conjunct2, rule_format, OF ax, THEN conjunct1,
      of ex_ctx ex_body 2]
  from r1 r2 show ?thesis by simp
qed

text \<open>
  Counterexample to C5 as stated: the same face extrude on the same document, once on a
  host whose recompute succeeds and once on a host whose recompute raises. The second
  returns not ok, with an error, after deleting the created feature.
\<close>

theorem extrude_recompute_failure_counterexample:
  "resp_ok (fst (extrude_handle (ex_host [ex_new_body] True True 10) ex_ctx
        (ex_extrude 10 False) ex_world)) = True
   \<and> resp_ok (fst (extrude_handle (ex_host [ex_new_body] False True 10) ex_ctx
        (ex_extrude 10 False) ex_world)) = False
   \<and> resp_error (fst (extrude_handle (ex_host [ex_new_body] False True 10) ex_ctx
        (ex_extrude 10 False) ex_world))
       = Some (ApplyFailed FaceExtrude ''Design compute failed'')
   \<and> calls (snd (extrude_handle (ex_host [ex_new_body] False True 10) ex_ctx
        (ex_extrude 10 False) ex_world))
       = [CallAdd FaceExtrude, CallComputeAll, CallDeleteMe ex_feature]"
  by (simp add: selection_defs document_defs host_defs response_defs extrude_defs example_defs)

section \<open>The new body of an extrude\<close>




section \<open>The distance of an extrude\<close>

text \<open>
  Claim C7. \<^verbatim>\<open>MAX_EXTRUDE_MM\<close> is 50. A request that passes the checks before the
  distance passes all checks of the request with the distance 50. With any distance
  above 50 (so with 50 + 1e-6) the command returns not ok and the world is as before, no
  host call made; when the request passes the checks before the distance, the response
  is the failure "distance_mm exceeds MAX_EXTRUDE_MM", an error of class InvalidInput.
\<close>

theorem extrude_distance_boundary:
  "MAX_EXTRUDE_MM = 50
   \<and> (checks_before_distance ctx rq sel \<longrightarrow>
        extrude_validate ctx (rq\<lparr>xr_distance_mm := Some MAX_EXTRUDE_MM\<rparr>)
          = Inr (sel, MAX_EXTRUDE_MM))
   \<and> (MAX_EXTRUDE_MM < d \<longrightarrow>
        resp_ok (fst (extrude_handle h ctx (rq\<lparr>xr_distance_mm := Some d\<rparr>) w)) = False
      \<and> snd (extrude_handle h ctx (rq\<lparr>xr_distance_mm := Some d\<rparr>) w) = w
      \<and> (checks_before_distance ctx rq sel \<longrightarrow>
            fst (extrude_handle h ctx (rq\<lparr>xr_distance_mm := Some d\<rparr>) w)
              = fail DistanceExceedsMax
          \<and> class_of DistanceExceedsMax = InvalidInput))"
proof -
  have v: "\<exists>e. extrude_validate ctx (rq\<lparr>xr_distance_mm := Some d\<rparr>) = Inl e"
    if "MAX_EXTRUDE_MM < d"
    using that by (simp add: extrude_validate_def split: option.splits)
  have r: "resp_ok (fst (extrude_handle h ctx (rq\<lparr>xr_distance_mm := Some d\<rparr>) w)) = False
      \<and> snd (extrude_handle h ctx (rq\<lparr>xr_distance_mm := Some d\<rparr>) w) = w"
    if "MAX_EXTRUDE_MM < d"
    using v [OF that] by (auto simp: extrude_handle_def fail_def)
  have x: "fst (extrude_handle h ctx (rq\<lparr>xr_distance_mm := Some d\<rparr>) w)
              = fail DistanceExceedsMax"
    if "MAX_EXTRUDE_MM < d" and "checks_before_distance ctx rq sel"
    using that
    by (simp add: extrude_handle_def extrude_validate_def checks_before_distance_def
        MAX_EXTRUDE_MM_def)
  have a: "extrude_validate ctx (rq\<lparr>xr_distance_mm := Some MAX_EXTRUDE_MM\<rparr>)
          = Inr (sel, MAX_EXTRUDE_MM)" if "checks_before_distance ctx rq sel"
    using that
    by (simp add: extrude_validate_def checks_before_distance_def MAX_EXTRUDE_MM_def)
  from r x a show ?thesis by (simp add: MAX_EXTRUDE_MM_def)
qed

text \<open>
  Witness for C7: the example request with the distance 50 passes the checks and the
  command returns ok; with 50 + 1e-6 it is rejected and the world is unchanged.
\<close>

theorem extrude_distance_boundary_witness:
  "extrude_validate ex_ctx (ex_extrude 50 False) = Inr (LargestPlanar, 50)
   \<and> resp_ok (fst (extrude_handle (ex_host [ex_new_body] True True 10) ex_ctx
        (ex_extrude 50 False) ex_world))
   \<and> extrude_handle (ex_host [ex_new_body] True True 10) ex_ctx
        (ex_extrude (50 + 1 / 1000000) False) ex_world = (fail DistanceExceedsMax, ex_world)"
proof -
  have v: "checks_before_distance ex_ctx (ex_extrude 1 False) LargestPlanar"
    by (simp add: checks_before_distance_def example_defs operations_def)
  have e: "(ex_extrude 1 False)\<lparr>xr_distance_mm := Some d\<rparr> = ex_extrude d False" for d
    by (simp add: ex_extrude_def)
  have m: "MAX_EXTRUDE_MM = 50" by (simp add: MAX_EXTRUDE_MM_def)
  have big: "MAX_EXTRUDE_MM < 50 + 1 / 1000000" by (simp add: MAX_EXTRUDE_MM_def)
  have run: "resp_ok (fst (extrude_handle (ex_host [ex_new_body] True True 10) ex_ctx
        (ex_extrude 50 False) ex_world))"
    by (simp add: selection_defs document_defs host_defs response_defs extrude_defs example_defs)
  note t = extrude_distance_boundary [of ex_ctx "ex_extrude 1 False" LargestPlanar
      "50 + 1 / 1000000" "ex_host [ex_new_body] True True 10" ex_world, unfolded e m]
  from t [THEN conjunct2, THEN conjunct1, rule_format, OF v]
  have 1: "extrude_validate ex_ctx (ex_extrude 50 False) = Inr (LargestPlanar, 50)" .
  from t [THEN conjunct2, THEN conjunct2, rule_format, OF big [unfolded m]]
  have 2: "snd (extrude_handle (ex_host [ex_new_body] True True 10) ex_ctx
             (ex_extrude (50 + 1 / 1000000) False) ex_world) = ex_world"
    and 3: "fst (extrude_handle (ex_host [ex_new_body] True True 10) ex_ctx
             (ex_extrude (50 + 1 / 1000000) False) ex_world) = fail DistanceExceedsMax"
    using v by blast+
  from 2 3 have "extrude_handle (ex_host [ex_new_body] True True 10) ex_ctx
        (ex_extrude (50 + 1 / 1000000) False) ex_world = (fail DistanceExceedsMax, ex_world)"
    by (metis prod.collapse)
  with 1 run show ?thesis by blast
qed

section \<open>The body of a command\<close>



section \<open>Preview\<close>

text \<open>
  With \<^verbatim>\<open>preview\<close> set, the face extrude and the hole command make no host call and
  leave the document as it is, whatever they return; a second identical request then
  gets the same response.
\<close>

lemma extrude_preview_pure:
  "xr_preview rq \<Longrightarrow> snd (extrude_handle h ctx rq w) = w"
  by (simp add: extrude_handle_def Let_def split: sum.splits prod.splits option.splits)

lemma extrude_preview_repeat:
  "xr_preview rq \<Longrightarrow>
   extrude_handle h ctx rq (snd (extrude_handle h ctx rq w)) = extrude_handle h ctx rq w"
  by (simp add: extrude_preview_pure)

lemma hole_preview_pure:
  "hr_preview rq \<Longrightarrow> snd (hole_handle h ctx rq w) = w"
  by (simp add: hole_handle_def Let_def split: sum.splits prod.splits option.splits)

text \<open>So does the revolve command when its axis is an edge.\<close>

lemma revolve_axis_pure:
  "truthy (rr_edge_id rq) \<or> truthy (rr_axis_selector rq) \<or> rr_axis_line_mm rq = None \<Longrightarrow>
   snd (revolve_axis h ctx rq w) = w"
  by (auto simp: revolve_axis_def split: option.splits prod.splits)

lemma revolve_preview_pure:
  assumes "rr_preview rq"
    and "truthy (rr_edge_id rq) \<or> truthy (rr_axis_selector rq) \<or> rr_axis_line_mm rq = None"
  shows "snd (revolve_handle h ctx rq w) = w"
  using assms(1) revolve_axis_pure [OF assms(2), of h ctx w]
  by (auto simp: revolve_handle_def Let_def split: option.splits prod.splits sum.splits)

text \<open>
  Claim C9 fails in the revolve command. Its axis may be given as a line through two
  points, and then \<^verbatim>\<open>handle\<close> creates a construction axis in the document while it
  builds the plan, before it tests \<^verbatim>\<open>preview\<close>. On the example document, a preview
  request with the axis line (0,0,0) to (0,0,10) returns ok as a preview, and the host
  call that adds the axis has been made: the document has one construction axis more.
\<close>

theorem revolve_preview_creates_axis:
  "resp_ok (fst (revolve_handle (ex_host [] True True 10) ex_ctx ex_revolve_preview ex_world))
   \<and> map_option d_is_preview
        (resp_data (fst (revolve_handle (ex_host [] True True 10) ex_ctx ex_revolve_preview
           ex_world)))
       = Some (Some True)
   \<and> calls (snd (revolve_handle (ex_host [] True True 10) ex_ctx ex_revolve_preview ex_world))
       = [CallAddAxis (0, 0, 0) (0, 0, 1)]
   \<and> constructionAxes (doc ex_world) = []
   \<and> constructionAxes
        (doc (snd (revolve_handle (ex_host [] True True 10) ex_ctx ex_revolve_preview ex_world)))
       = [((0, 0, 0), (0, 0, 1))]"
  by (simp add: revolve_defs selection_defs document_defs host_defs response_defs example_defs
      operations_def)

text \<open>
  Witness for C9: the example context has a design and a root component, the request
  asks for a preview, and the command has made a host call.
\<close>

theorem revolve_preview_creates_axis_witness:
  "has_design ex_ctx \<and> has_root_comp ex_ctx \<and> rr_preview ex_revolve_preview
   \<and> calls (snd (revolve_handle (ex_host [] True True 10) ex_ctx ex_revolve_preview ex_world))
       \<noteq> calls ex_world"
proof -
  have "has_design ex_ctx \<and> has_root_comp ex_ctx \<and> rr_preview ex_revolve_preview
        \<and> calls ex_world = []"
    by (simp add: ex_ctx_def ex_revolve_preview_def ex_world_def)
  with revolve_preview_creates_axis show ?thesis by simp
qed

end
